theory Spec2Isabelle
  imports Main "HOL-Library.Sublist"
begin

section \<open>Values, strings and numbers of the host language\<close>

text \<open>
  The tools receive a dynamically typed parameter bag (\<open>params: Partial<Record<ToolParamName, any>>\<close>)
  and test its shape at run time, so a parameter is a value of the host language.
  Numbers are whole numbers here; strings are byte strings.
\<close>

datatype jsval =
    Undefined
  | Null
  | Bool bool
  | Num int
  | Str string
  | Arr "jsval list"
  | Obj "(string \<times> jsval) list"

text \<open>A thrown value: an object whose \<open>code\<close> and \<open>message\<close> properties may be absent.\<close>

record js_error =
  err_code :: "string option"
  err_message :: "string option"

text \<open>\<open>String.prototype.trim\<close> on the ASCII white space characters (tab, LF, VT, FF, CR, space).\<close>

definition is_space :: "char \<Rightarrow> bool" where
  "is_space c = (c = CHR '' '' \<or> (9 \<le> (of_char c :: nat) \<and> (of_char c :: nat) \<le> 13))"

definition trim :: "string \<Rightarrow> string" where
  "trim str = rev (dropWhile is_space (rev (dropWhile is_space str)))"

text \<open>\<open>Array.prototype.join\<close> on strings.\<close>

fun join :: "string \<Rightarrow> string list \<Rightarrow> string" where
  "join sep [] = []"
| "join sep [x] = x"
| "join sep (x # y # ys) = x @ sep @ join sep (y # ys)"

text \<open>Decimal rendering of a number inside a template literal.\<close>

definition digit_char :: "nat \<Rightarrow> char" where
  "digit_char d = ''0123456789'' ! (d mod 10)"

function show_nat :: "nat \<Rightarrow> string" where
  "show_nat n = (if n < 10 then [digit_char n] else show_nat (n div 10) @ [digit_char (n mod 10)])"
  by pat_completeness auto
termination
  by (relation "measure (\<lambda>n. n)") auto

declare show_nat.simps [simp del]

definition show_int :: "int \<Rightarrow> string" where
  "show_int i = (if i < 0 then CHR ''-'' # show_nat (nat (- i)) else show_nat (nat i))"

text \<open>\<open>String.prototype.includes\<close>.\<close>

fun starts_with :: "string \<Rightarrow> string \<Rightarrow> bool" where
  "starts_with [] str = True"
| "starts_with (p # ps) [] = False"
| "starts_with (p # ps) (c # cs) = (p = c \<and> starts_with ps cs)"

fun str_includes :: "string \<Rightarrow> string \<Rightarrow> bool" where
  "str_includes [] sub = (sub = [])"
| "str_includes (c # cs) sub = (starts_with sub (c # cs) \<or> str_includes cs sub)"

text \<open>\<open>error.message || "Unknown error"\<close>: an absent or empty message gives the fallback.\<close>

definition message_or :: "js_error \<Rightarrow> string \<Rightarrow> string" where
  "message_or e fallback =
     (case err_message e of None \<Rightarrow> fallback | Some m \<Rightarrow> (if m = [] then fallback else m))"

section \<open>Collaborators, events and the task state\<close>

text \<open>The object handed to \<open>JSON.stringify\<close> for the approval request.\<close>

record approval_path =
  ap_path :: string
  ap_isOutsideWorkspace :: bool
  ap_status :: "string option"

record approval =
  ap_tool :: string
  ap_paths :: "approval_path list"
  ap_reason :: "string option"
  ap_recursive :: "bool option"

text \<open>
  Every call of a collaborator with an effect or an answer from outside is an event; the
  events of one invocation, in the order of the calls, are its trace. The access check and
  the approval request record the answer they got.
\<close>

datatype event =
    Say string string
  | SayAndCreateMissingParamError string string string
  | PushToolResult string
  | Ask approval
  | AskApproval approval bool
  | GetState
  | ValidateAccess string bool
  | FileExistsAtPath string
  | CountFileLines string
  | IsBinaryFile string
  | ReadLines string "int option" "int option"
  | ParseSourceCodeDefinitionsForFile string
  | ExtractTextFromFile string
  | ListFiles string bool nat
  | FsDelete string bool bool
  | FsCreateDirectory string
  | FsWriteFile string "nat list"
  | HandleError string js_error
  | ConsoleWarn string
  | ConsoleError string

text \<open>
  The fields of the \<open>Cline\<close> task object that the tools write, and the trace so far.
\<close>

record st =
  trace :: "event list"
  consecutiveMistakeCount :: int
  didEditFile :: bool

definition emit :: "event \<Rightarrow> st \<Rightarrow> st" where
  "emit e s = s\<lparr>trace := trace s @ [e]\<rparr>"

text \<open>
  The pure helpers imported from other modules (\<open>path\<close>, \<open>utils/path\<close>, \<open>utils/pathUtils\<close>,
  \<open>prompts/responses\<close>, \<open>i18n\<close>, \<open>integrations/misc/extract-text\<close>) are parameters.
\<close>

record helpers =
  cwd :: string
  resolve :: "string \<Rightarrow> string \<Rightarrow> string"
  dirname :: "string \<Rightarrow> string"
  getReadablePath :: "string \<Rightarrow> string \<Rightarrow> string"
  isPathOutsideWorkspace :: "string \<Rightarrow> bool"
  rooIgnoreError :: "string \<Rightarrow> string"
  toolError :: "string \<Rightarrow> string"
  i18n_t :: "string \<Rightarrow> (string \<times> int) list \<Rightarrow> string"
  addLineNumbers :: "string \<Rightarrow> int \<Rightarrow> string"
  formatFilesList :: "string \<Rightarrow> string list \<Rightarrow> bool \<Rightarrow> bool \<Rightarrow> string"

text \<open>
  The collaborators that answer from outside (the ignore controller, the approval
  authority, the provider state, the file system). An answer may depend on everything
  that happened before the call, so each takes the trace so far. A rejected promise is
  \<open>Inl\<close> of the thrown value; for the calls that resolve to nothing, \<open>None\<close> is success.
\<close>

record provider_state =
  maxReadFileLine :: "int option"
  showRooIgnoredFiles :: "bool option"

record world =
  rooIgnoreController :: "(event list \<Rightarrow> string \<Rightarrow> bool) option"
  askApproval :: "event list \<Rightarrow> approval \<Rightarrow> bool"
  missingParamError :: "string \<Rightarrow> string \<Rightarrow> string \<Rightarrow> string"
  getState :: "event list \<Rightarrow> provider_state option"
  fileExistsAtPath :: "event list \<Rightarrow> string \<Rightarrow> bool"
  countFileLines :: "event list \<Rightarrow> string \<Rightarrow> js_error + int"
  isBinaryFile :: "event list \<Rightarrow> string \<Rightarrow> js_error + bool"
  readLines :: "event list \<Rightarrow> string \<Rightarrow> int option \<Rightarrow> int option \<Rightarrow> js_error + string"
  parseSourceCodeDefinitionsForFile :: "event list \<Rightarrow> string \<Rightarrow> js_error + string option"
  extractTextFromFile :: "event list \<Rightarrow> string \<Rightarrow> js_error + string"
  listFiles :: "event list \<Rightarrow> string \<Rightarrow> bool \<Rightarrow> nat \<Rightarrow> js_error + (string list \<times> bool)"
  fs_delete :: "event list \<Rightarrow> string \<Rightarrow> bool \<Rightarrow> bool \<Rightarrow> js_error option"
  fs_createDirectory :: "event list \<Rightarrow> string \<Rightarrow> js_error option"
  fs_writeFile :: "event list \<Rightarrow> string \<Rightarrow> nat list \<Rightarrow> js_error option"

text \<open>The tool invocation: the parameters the five tools read, and the streaming flag.\<close>

record block =
  params_paths :: jsval
  params_items :: jsval
  params_start_line :: "string option"
  params_end_line :: "string option"
  params_recursive :: "string option"
  partial :: bool

text \<open>
  The tools return nothing. To name the place where an invocation returned, the model
  returns an outcome: rejected with an error result, announced (streaming), denied by the
  approval authority, left by an exception that nothing catches, or completed with the
  local \<open>results\<close> array.
\<close>

datatype 'r outcome = Rejected | Announced | Denied | Threw | Completed "'r list"

section \<open>What the batch tools share\<close>

text \<open>\<open>!input || !Array.isArray(input) || input.length === 0\<close>, negated.\<close>

definition nonempty_array :: "jsval \<Rightarrow> bool" where
  "nonempty_array v = (case v of Arr xs \<Rightarrow> xs \<noteq> [] | _ \<Rightarrow> False)"

definition array_items :: "jsval \<Rightarrow> jsval list" where
  "array_items v = (case v of Arr xs \<Rightarrow> xs | _ \<Rightarrow> [])"

text \<open>\<open>input.filter((p) => typeof p === "string" && p.trim() !== "")\<close>.\<close>

fun valid_path :: "jsval \<Rightarrow> string option" where
  "valid_path (Str p) = (if trim p \<noteq> [] then Some p else None)"
| "valid_path _ = None"

definition filter_paths :: "jsval list \<Rightarrow> string list" where
  "filter_paths xs = List.map_filter valid_path xs"

text \<open>\<open>cline.rooIgnoreController?.validateAccess(relPath) ?? true\<close>.\<close>

definition validateAccess :: "world \<Rightarrow> string \<Rightarrow> st \<Rightarrow> bool \<times> st" where
  "validateAccess w relPath s =
     (case rooIgnoreController w of
        None \<Rightarrow> (True, s)
      | Some f \<Rightarrow> (let ok = f (trace s) relPath in (ok, emit (ValidateAccess relPath ok) s)))"

text \<open>
  A \<open>for (const x of xs)\<close> loop whose body pushes one result: the body is run on every
  element in turn, each from the state the one before left.
\<close>

fun run_items :: "('a \<Rightarrow> st \<Rightarrow> 'r \<times> st) \<Rightarrow> 'a list \<Rightarrow> st \<Rightarrow> 'r list \<times> st" where
  "run_items body [] s = ([], s)"
| "run_items body (x # xs) s =
     (case body x s of (r, s1) \<Rightarrow>
        (case run_items body xs s1 of (rs, s2) \<Rightarrow> (r # rs, s2)))"

text \<open>The parameter checks that open every path-based tool.\<close>

definition missing_paths :: "world \<Rightarrow> string \<Rightarrow> string \<Rightarrow> st \<Rightarrow> st" where
  "missing_paths w toolName msg s =
     emit (PushToolResult (missingParamError w toolName ''paths'' msg))
       (emit (SayAndCreateMissingParamError toolName ''paths'' msg)
          (s\<lparr>consecutiveMistakeCount := consecutiveMistakeCount s + 1\<rparr>))"

definition no_valid_paths :: "helpers \<Rightarrow> st \<Rightarrow> st" where
  "no_valid_paths h s =
     emit (PushToolResult (toolError h ''Invalid 'paths' parameter: No valid paths provided.''))
       (emit (Say ''error'' ''The 'paths' parameter array contains only invalid or empty paths.'')
          (s\<lparr>consecutiveMistakeCount := consecutiveMistakeCount s + 1\<rparr>))"

text \<open>The pre-approval entry of one path, with the answer of the access check.\<close>

record path_entry =
  pe_path :: string
  pe_readablePath :: string
  pe_isOutsideWorkspace :: bool
  pe_accessAllowed :: bool

definition check_path :: "helpers \<Rightarrow> world \<Rightarrow> string \<Rightarrow> st \<Rightarrow> path_entry \<times> st" where
  "check_path h w relPath s =
     (let fullPath = resolve h (cwd h) relPath in
      case validateAccess w relPath s of (accessAllowed, s1) \<Rightarrow>
        (\<lparr>pe_path = relPath,
          pe_readablePath = getReadablePath h (cwd h) relPath,
          pe_isOutsideWorkspace = isPathOutsideWorkspace h fullPath,
          pe_accessAllowed = accessAllowed\<rparr>, s1))"

definition approval_paths :: "path_entry list \<Rightarrow> approval_path list" where
  "approval_paths entries =
     map (\<lambda>p. \<lparr>ap_path = pe_readablePath p, ap_isOutsideWorkspace = pe_isOutsideWorkspace p,
               ap_status = None\<rparr>) entries"

text \<open>
  The approval step, the same in the five tools: a streaming invocation announces the
  request and returns; a finalized one resets the mistake counter, awaits the decision,
  returns on a denial and otherwise runs the execution part of the tool.
\<close>

definition gate ::
  "world \<Rightarrow> block \<Rightarrow> approval \<Rightarrow> (st \<Rightarrow> 'r outcome \<times> st) \<Rightarrow> st \<Rightarrow> 'r outcome \<times> st" where
  "gate w b approvalContent execute s1 =
     (if partial b then (Announced, emit (Ask approvalContent) s1)
      else
        (let s2 = s1\<lparr>consecutiveMistakeCount := 0\<rparr>;
             didApprove = askApproval w (trace s2) approvalContent;
             s3 = emit (AskApproval approvalContent didApprove) s2
         in if \<not> didApprove then (Denied, s3) else execute s3))"

text \<open>The paths that the pre-approval pass found ignored.\<close>

definition disallowed :: "(path_entry \<Rightarrow> string) \<Rightarrow> path_entry list \<Rightarrow> string list" where
  "disallowed name pathsForApproval =
     map name (filter (\<lambda>p. \<not> pe_accessAllowed p) pathsForApproval)"

text \<open>
  The rejection of a batch that names an ignored path, as the read, list and write tools
  word it.
\<close>

definition reject_ignored :: "helpers \<Rightarrow> string list \<Rightarrow> st \<Rightarrow> st" where
  "reject_ignored h disallowedPaths s =
     (let errorMsg = rooIgnoreError h (join '', '' disallowedPaths)
      in emit (PushToolResult (toolError h errorMsg)) (emit (Say ''rooignore_error'' errorMsg) s))"

section \<open>deleteItemsTool\<close>

datatype status = Success | Error

definition show_status :: "status \<Rightarrow> string" where
  "show_status x = (case x of Success \<Rightarrow> ''success'' | Error \<Rightarrow> ''error'')"

text \<open>
  \<open>DeleteResult\<close>, \<open>CreateResult\<close> and the result type of the write loop are the same
  structure: \<open>{ path: string; status: "success" | "error"; error?: string }\<close>.
\<close>

record status_result =
  sr_path :: string
  sr_status :: status
  sr_error :: "string option"

type_synonym DeleteResult = status_result
type_synonym CreateResult = status_result
type_synonym WriteResult = status_result

text \<open>The body of the deletion loop: one call of \<open>vscode.workspace.fs.delete\<close>, then the result.\<close>

definition delete_item :: "helpers \<Rightarrow> world \<Rightarrow> string \<Rightarrow> st \<Rightarrow> DeleteResult \<times> st" where
  "delete_item h w relPath s =
     (let absolutePath = resolve h (cwd h) relPath;
          s1 = emit (FsDelete absolutePath True False) s
      in case fs_delete w (trace s) absolutePath True False of
           None \<Rightarrow>
             (\<lparr>sr_path = relPath, sr_status = Success, sr_error = None\<rparr>,
              s1\<lparr>didEditFile := True\<rparr>)
         | Some err \<Rightarrow>
             (if err_code err = Some ''FileNotFound'' then
                (\<lparr>sr_path = relPath, sr_status = Error,
                  sr_error = Some ''File or directory not found.''\<rparr>, s1)
              else
                (let errorMsg = ''Error deleting '' @ relPath @ '': '' @ message_or err ''Unknown error'';
                     s2 = emit (ConsoleError errorMsg) s1;
                     s3 = emit (HandleError (''deleting '' @ relPath) err) s2
                 in (\<lparr>sr_path = relPath, sr_status = Error,
                      sr_error = Some (message_or err ''Unknown error'')\<rparr>, s3))))"

text \<open>
  The report of the tools with a status: one element per result. \<open>if (result.error)\<close> holds
  when the error is a non-empty string.
\<close>

definition has_error :: "string option \<Rightarrow> bool" where
  "has_error e = (case e of None \<Rightarrow> False | Some m \<Rightarrow> m \<noteq> [])"

definition error_element :: "string option \<Rightarrow> string" where
  "error_element e =
     (case e of
        None \<Rightarrow> []
      | Some m \<Rightarrow> (if m = [] then [] else ''    <error>'' @ m @ ''</error>'' @ [CHR 0x0A]))"

definition status_element :: "string \<Rightarrow> string \<Rightarrow> status \<Rightarrow> string option \<Rightarrow> string" where
  "status_element tag p stat e =
     ''  <'' @ tag @ ''>'' @ [CHR 0x0A] @ ''    <path>'' @ p @ ''</path>'' @ [CHR 0x0A]
     @ ''    <status>'' @ show_status stat @ ''</status>'' @ [CHR 0x0A]
     @ error_element e
     @ ''  </'' @ tag @ ''>'' @ [CHR 0x0A]"

definition status_report :: "string \<Rightarrow> string \<Rightarrow> status_result list \<Rightarrow> string" where
  "status_report root tag results =
     ''<'' @ root @ ''>'' @ [CHR 0x0A]
     @ concat (map (\<lambda>r. status_element tag (sr_path r) (sr_status r) (sr_error r)) results)
     @ ''</'' @ root @ ''>''"

definition errorCount :: "status_result list \<Rightarrow> nat" where
  "errorCount results = length (filter (\<lambda>r. has_error (sr_error r)) results)"

definition successCount :: "status_result list \<Rightarrow> nat" where
  "successCount results = length (filter (\<lambda>r. \<not> has_error (sr_error r)) results)"

definition delete_summary :: "DeleteResult list \<Rightarrow> string" where
  "delete_summary results =
     ''Batch deletion completed. '' @ show_nat (successCount results)
     @ '' item(s) deleted successfully.''
     @ (if errorCount results > 0
        then '' '' @ show_nat (errorCount results) @ '' item(s) failed to delete or were not found.''
        else [])"

definition delete_reject_ignored :: "helpers \<Rightarrow> string list \<Rightarrow> st \<Rightarrow> st" where
  "delete_reject_ignored h disallowedPaths s =
     (let errorMsg = rooIgnoreError h
            (''Deletion prevented for ignored path(s): '' @ join '', '' disallowedPaths)
      in emit (PushToolResult (toolError h errorMsg)) (emit (Say ''rooignore_error'' errorMsg) s))"

definition delete_approval :: "string list \<Rightarrow> path_entry list \<Rightarrow> approval" where
  "delete_approval relPaths pathsForApproval =
     \<lparr>ap_tool = ''deleteItems'',
      ap_paths = approval_paths pathsForApproval,
      ap_reason = Some (''Will attempt to PERMANENTLY delete '' @ show_nat (length relPaths)
                        @ '' item(s) (files or directories). This action cannot be undone.''),
      ap_recursive = None\<rparr>"

definition delete_execute ::
  "helpers \<Rightarrow> world \<Rightarrow> string list \<Rightarrow> st \<Rightarrow> DeleteResult outcome \<times> st" where
  "delete_execute h w relPaths s3 =
     (case run_items (delete_item h w) relPaths s3 of (results, s4) \<Rightarrow>
        (Completed results,
         emit (PushToolResult (status_report ''deletion_results'' ''item'' results))
           (emit (Say ''text'' (delete_summary results)) s4)))"

definition deleteItemsTool :: "helpers \<Rightarrow> world \<Rightarrow> block \<Rightarrow> st \<Rightarrow> DeleteResult outcome \<times> st" where
  "deleteItemsTool h w b s =
     (if \<not> nonempty_array (params_paths b) then
        (Rejected, missing_paths w ''delete_items''
           ''Expected a non-empty array of file or directory paths to delete.'' s)
      else
        (let relPaths = filter_paths (array_items (params_paths b)) in
         if relPaths = [] then (Rejected, no_valid_paths h s)
         else
           (case run_items (check_path h w) relPaths s of (pathsForApproval, s1) \<Rightarrow>
              (let disallowedPaths = disallowed pe_readablePath pathsForApproval in
               if disallowedPaths \<noteq> [] then (Rejected, delete_reject_ignored h disallowedPaths s1)
               else gate w b (delete_approval relPaths pathsForApproval)
                      (delete_execute h w relPaths) s1))))"

section \<open>createDirectoriesTool\<close>

definition create_item :: "helpers \<Rightarrow> world \<Rightarrow> string \<Rightarrow> st \<Rightarrow> CreateResult \<times> st" where
  "create_item h w relDirPath s =
     (let absolutePath = resolve h (cwd h) relDirPath;
          s1 = emit (FsCreateDirectory absolutePath) s
      in case fs_createDirectory w (trace s) absolutePath of
           None \<Rightarrow>
             (\<lparr>sr_path = relDirPath, sr_status = Success, sr_error = None\<rparr>,
              s1\<lparr>didEditFile := True\<rparr>)
         | Some err \<Rightarrow>
             (let errorMsg = ''Error creating directory '' @ relDirPath @ '': ''
                    @ message_or err ''Unknown error'';
                  s2 = emit (ConsoleError errorMsg) s1;
                  s3 = emit (HandleError (''creating directory '' @ relDirPath) err) s2
              in (\<lparr>sr_path = relDirPath, sr_status = Error,
                   sr_error = Some (message_or err ''Unknown error'')\<rparr>, s3)))"

definition create_summary :: "CreateResult list \<Rightarrow> string" where
  "create_summary results =
     ''Batch directory creation completed. '' @ show_nat (successCount results)
     @ '' director(y/ies) processed successfully.''
     @ (if errorCount results > 0
        then '' '' @ show_nat (errorCount results) @ '' director(y/ies) failed to create.''
        else [])"

text \<open>The entries for the approval request are computed without the ignore controller.\<close>

definition create_approval_paths :: "helpers \<Rightarrow> string list \<Rightarrow> approval_path list" where
  "create_approval_paths h relDirPaths =
     map (\<lambda>relDirPath.
            \<lparr>ap_path = getReadablePath h (cwd h) relDirPath,
             ap_isOutsideWorkspace = isPathOutsideWorkspace h (resolve h (cwd h) relDirPath),
             ap_status = None\<rparr>) relDirPaths"

definition create_approval :: "helpers \<Rightarrow> string list \<Rightarrow> approval" where
  "create_approval h relDirPaths =
     \<lparr>ap_tool = ''createDirectories'',
      ap_paths = create_approval_paths h relDirPaths,
      ap_reason = Some (''Will attempt to create '' @ show_nat (length relDirPaths)
                        @ '' director(y/ies) and any necessary parent directories.''),
      ap_recursive = None\<rparr>"

definition create_execute ::
  "helpers \<Rightarrow> world \<Rightarrow> string list \<Rightarrow> st \<Rightarrow> CreateResult outcome \<times> st" where
  "create_execute h w relDirPaths s3 =
     (case run_items (create_item h w) relDirPaths s3 of (results, s4) \<Rightarrow>
        (Completed results,
         emit (PushToolResult (status_report ''creation_results'' ''directory'' results))
           (emit (Say ''text'' (create_summary results)) s4)))"

definition createDirectoriesTool ::
  "helpers \<Rightarrow> world \<Rightarrow> block \<Rightarrow> st \<Rightarrow> CreateResult outcome \<times> st" where
  "createDirectoriesTool h w b s =
     (if \<not> nonempty_array (params_paths b) then
        (Rejected, missing_paths w ''create_directories''
           ''Expected a non-empty array of directory paths.'' s)
      else
        (let relDirPaths = filter_paths (array_items (params_paths b)) in
         if relDirPaths = [] then (Rejected, no_valid_paths h s)
         else gate w b (create_approval h relDirPaths) (create_execute h w relDirPaths) s))"

section \<open>listDirectoriesTool\<close>

record ListResult =
  lr_path :: string
  lr_content :: "string option"
  lr_error :: "string option"
  lr_didHitLimit :: "bool option"

text \<open>\<open>String.prototype.toLowerCase\<close> on ASCII letters.\<close>

definition lower_char :: "char \<Rightarrow> char" where
  "lower_char c =
     (if 65 \<le> (of_char c :: nat) \<and> (of_char c :: nat) \<le> 90
      then char_of ((of_char c :: nat) + 32) else c)"

definition toLowerCase :: "string \<Rightarrow> string" where
  "toLowerCase str = map lower_char str"

text \<open>The error thrown when the access check inside a loop fails.\<close>

definition ignored_error :: "helpers \<Rightarrow> string \<Rightarrow> js_error" where
  "ignored_error h relPath = \<lparr>err_code = None, err_message = Some (rooIgnoreError h relPath)\<rparr>"

definition list_failed :: "string \<Rightarrow> string \<Rightarrow> js_error \<Rightarrow> st \<Rightarrow> ListResult \<times> st" where
  "list_failed absolutePath relDirPath err s =
     (let s1 = emit (ConsoleError (''Error listing directory '' @ absolutePath @ '':'')) s;
          errorMsg = message_or err ''Unknown error listing directory'';
          s2 = emit (HandleError (''listing directory '' @ relDirPath) err) s1
      in (\<lparr>lr_path = relDirPath, lr_content = None, lr_error = Some errorMsg,
           lr_didHitLimit = None\<rparr>, s2))"

definition list_item ::
  "helpers \<Rightarrow> world \<Rightarrow> bool \<Rightarrow> bool \<Rightarrow> string \<Rightarrow> st \<Rightarrow> ListResult \<times> st" where
  "list_item h w recursive showIgnored relDirPath s =
     (let absolutePath = resolve h (cwd h) relDirPath in
      case validateAccess w relDirPath s of (ok, s1) \<Rightarrow>
        if \<not> ok then list_failed absolutePath relDirPath (ignored_error h relDirPath) s1
        else
          (let s2 = emit (ListFiles absolutePath recursive 200) s1 in
           case listFiles w (trace s1) absolutePath recursive 200 of
             Inl err \<Rightarrow> list_failed absolutePath relDirPath err s2
           | Inr (files, didHitLimit) \<Rightarrow>
               (\<lparr>lr_path = relDirPath,
                 lr_content = Some (formatFilesList h absolutePath files didHitLimit showIgnored),
                 lr_error = None,
                 lr_didHitLimit = Some didHitLimit\<rparr>, s2)))"

definition list_element :: "ListResult \<Rightarrow> string" where
  "list_element r =
     ''  <directory>'' @ [CHR 0x0A] @ ''    <path>'' @ lr_path r @ ''</path>'' @ [CHR 0x0A]
     @ (case lr_content r of
          Some c \<Rightarrow>
            ''    <content>'' @ [CHR 0x0A] @ c @ [CHR 0x0A] @ ''    </content>'' @ [CHR 0x0A]
            @ (if lr_didHitLimit r = Some True
               then ''    <limit_hit>true</limit_hit>'' @ [CHR 0x0A] else [])
        | None \<Rightarrow> error_element (lr_error r))
     @ ''  </directory>'' @ [CHR 0x0A]"

definition list_report :: "ListResult list \<Rightarrow> string" where
  "list_report results =
     ''<directories>'' @ [CHR 0x0A] @ concat (map list_element results) @ ''</directories>''"

definition list_approval :: "bool \<Rightarrow> path_entry list \<Rightarrow> approval" where
  "list_approval recursive pathsForApproval =
     \<lparr>ap_tool = ''listDirectories'',
      ap_paths = approval_paths pathsForApproval,
      ap_reason = None,
      ap_recursive = Some recursive\<rparr>"

text \<open>\<open>const { showRooIgnoredFiles = true } = (await ...getState()) ?? {}\<close>.\<close>

definition list_showIgnored :: "world \<Rightarrow> st \<Rightarrow> bool" where
  "list_showIgnored w s3 =
     (case getState w (trace s3) of
        None \<Rightarrow> True
      | Some ps \<Rightarrow> (case showRooIgnoredFiles ps of None \<Rightarrow> True | Some v \<Rightarrow> v))"

text \<open>\<open>recursiveRaw?.toLowerCase() === "true"\<close>.\<close>

definition list_recursive :: "block \<Rightarrow> bool" where
  "list_recursive b =
     (case params_recursive b of None \<Rightarrow> False | Some raw \<Rightarrow> toLowerCase raw = ''true'')"

definition list_execute ::
  "helpers \<Rightarrow> world \<Rightarrow> bool \<Rightarrow> string list \<Rightarrow> st \<Rightarrow> ListResult outcome \<times> st" where
  "list_execute h w recursive relDirPaths s3 =
     (let showIgnored = list_showIgnored w s3;
          s4 = emit GetState s3
      in case run_items (list_item h w recursive showIgnored) relDirPaths s4 of
           (results, s5) \<Rightarrow>
             (Completed results, emit (PushToolResult (list_report results)) s5))"

definition listDirectoriesTool ::
  "helpers \<Rightarrow> world \<Rightarrow> block \<Rightarrow> st \<Rightarrow> ListResult outcome \<times> st" where
  "listDirectoriesTool h w b s =
     (let recursive = list_recursive b in
      if \<not> nonempty_array (params_paths b) then
        (Rejected, missing_paths w ''list_directories''
           ''Expected a non-empty array of directory paths.'' s)
      else
        (let relDirPaths = filter_paths (array_items (params_paths b)) in
         if relDirPaths = [] then (Rejected, no_valid_paths h s)
         else
           (case run_items (check_path h w) relDirPaths s of (pathsForApproval, s1) \<Rightarrow>
              (let disallowedPaths = disallowed pe_readablePath pathsForApproval in
               if disallowedPaths \<noteq> [] then (Rejected, reject_ignored h disallowedPaths s1)
               else gate w b (list_approval recursive pathsForApproval)
                      (list_execute h w recursive relDirPaths) s1))))"

section \<open>readFilesTool\<close>

record FileResult =
  fr_path :: string
  fr_content :: "string option"
  fr_error :: "string option"
  fr_isTruncated :: "bool option"
  fr_totalLines :: "int option"
  fr_sourceCodeDef :: "string option"

text \<open>
  \<open>parseInt\<close> with no radix: leading white space, an optional sign, an optional
  \<open>0x\<close> prefix, then the longest run of digits; \<open>None\<close> is \<open>NaN\<close>.
\<close>

definition digit_val :: "char \<Rightarrow> nat" where
  "digit_val c =
     (let n = (of_char c :: nat) in
      if 48 \<le> n \<and> n \<le> 57 then n - 48
      else if 97 \<le> n \<and> n \<le> 122 then n - 87
      else if 65 \<le> n \<and> n \<le> 90 then n - 55
      else 36)"

definition parseInt :: "string \<Rightarrow> int option" where
  "parseInt str =
     (let s0 = dropWhile is_space str;
          negative = (case s0 of c # _ \<Rightarrow> c = CHR ''-'' | [] \<Rightarrow> False);
          s1 = (case s0 of c # cs \<Rightarrow> (if c = CHR ''-'' \<or> c = CHR ''+'' then cs else s0) | [] \<Rightarrow> []);
          hex = (case s1 of a # b # _ \<Rightarrow> a = CHR ''0'' \<and> (b = CHR ''x'' \<or> b = CHR ''X'') | _ \<Rightarrow> False);
          radix = (if hex then 16 else 10);
          s2 = (if hex then drop 2 s1 else s1);
          z = takeWhile (\<lambda>c. digit_val c < radix) s2;
          mathInt = foldl (\<lambda>acc c. acc * radix + digit_val c) 0 z
      in if z = [] then None
         else Some (if negative then - int mathInt else int mathInt))"

text \<open>A string parameter is used when it is present and not empty (\<open>if (startLineStr)\<close>).\<close>

definition truthy_str :: "string option \<Rightarrow> bool" where
  "truthy_str v = (case v of None \<Rightarrow> False | Some str \<Rightarrow> str \<noteq> [])"

text \<open>
  The line range of the batch. \<open>Inl\<close> carries the text said to the user and the text of
  the tool error; \<open>Inr\<close> carries \<open>isRangeRead\<close> and the 0-based \<open>startLine\<close> and
  \<open>endLine\<close>.
\<close>

definition parse_bound :: "string option \<Rightarrow> string \<Rightarrow> (string \<times> string) + int option" where
  "parse_bound v name =
     (case v of
        None \<Rightarrow> Inr None
      | Some str \<Rightarrow>
          (if str = [] then Inr None
           else (case parseInt str of
                   None \<Rightarrow> Inl (''Failed to parse '' @ name @ '': '' @ str,
                                ''Invalid '' @ name @ '' value'')
                 | Some n \<Rightarrow> Inr (Some (max 0 (n - 1))))))"

definition parse_line_range ::
  "string option \<Rightarrow> string option \<Rightarrow> (string \<times> string) + (bool \<times> int option \<times> int option)" where
  "parse_line_range startLineStr endLineStr =
     (let isRangeRead = (truthy_str startLineStr \<or> truthy_str endLineStr) in
      case parse_bound startLineStr ''start_line'' of
        Inl e \<Rightarrow> Inl e
      | Inr startLine \<Rightarrow>
          (case parse_bound endLineStr ''end_line'' of
             Inl e \<Rightarrow> Inl e
           | Inr endLine \<Rightarrow>
               (case (startLine, endLine) of
                  (Some a, Some b) \<Rightarrow>
                    (if a > b then
                       Inl (''start_line ('' @ show_int (a + 1)
                              @ '') cannot be greater than end_line ('' @ show_int (b + 1) @ '').'',
                            ''Invalid line range: start_line > end_line.'')
                     else Inr (isRangeRead, startLine, endLine))
                | _ \<Rightarrow> Inr (isRangeRead, startLine, endLine))))"

definition lineSnippet :: "helpers \<Rightarrow> int option \<Rightarrow> int option \<Rightarrow> int \<Rightarrow> string" where
  "lineSnippet h startLine endLine maxLines =
     (case (startLine, endLine) of
        (Some a, Some b) \<Rightarrow> i18n_t h ''tools:readFile.linesRange'' [(''start'', a + 1), (''end'', b + 1)]
      | (Some a, None) \<Rightarrow> i18n_t h ''tools:readFile.linesFromToEnd'' [(''start'', a + 1)]
      | (None, Some b) \<Rightarrow> i18n_t h ''tools:readFile.linesFromStartTo'' [(''end'', b + 1)]
      | (None, None) \<Rightarrow>
          (if maxLines = 0 then i18n_t h ''tools:readFile.definitionsOnly'' []
           else if maxLines > 0 then i18n_t h ''tools:readFile.maxLines'' [(''max'', maxLines)]
           else []))"

definition read_failed :: "string \<Rightarrow> string \<Rightarrow> js_error \<Rightarrow> st \<Rightarrow> FileResult \<times> st" where
  "read_failed absolutePath relPath err s =
     (let s1 = emit (ConsoleError (''Error reading file '' @ absolutePath @ '':'')) s;
          fileError = message_or err ''Unknown error reading file''
      in (\<lparr>fr_path = relPath, fr_content = None, fr_error = Some fileError,
           fr_isTruncated = None, fr_totalLines = None, fr_sourceCodeDef = None\<rparr>, s1))"

definition read_ok ::
  "string \<Rightarrow> string \<Rightarrow> bool \<Rightarrow> int \<Rightarrow> string \<Rightarrow> FileResult" where
  "read_ok relPath fileContent isFileTruncated currentTotalLines sourceCodeDef =
     \<lparr>fr_path = relPath, fr_content = Some fileContent, fr_error = None,
      fr_isTruncated = Some isFileTruncated, fr_totalLines = Some currentTotalLines,
      fr_sourceCodeDef = Some sourceCodeDef\<rparr>"

text \<open>
  The line count of a file; a failure of the counter is logged and counts as \<open>0\<close>.
\<close>

definition count_lines :: "world \<Rightarrow> string \<Rightarrow> st \<Rightarrow> int \<times> st" where
  "count_lines w absolutePath s1 =
     (let s2 = emit (CountFileLines absolutePath) s1 in
      case countFileLines w (trace s1) absolutePath of
        Inr n \<Rightarrow> (n, s2)
      | Inl _ \<Rightarrow> (0, emit (ConsoleWarn (''Could not count lines for '' @ absolutePath @ '':'')) s2))"

text \<open>\<open>await isBinaryFile(absolutePath).catch(() => false)\<close>.\<close>

definition detect_binary :: "world \<Rightarrow> string \<Rightarrow> st \<Rightarrow> bool \<times> st" where
  "detect_binary w absolutePath s3 =
     ((case isBinaryFile w (trace s3) absolutePath of Inr v \<Rightarrow> v | Inl _ \<Rightarrow> False),
      emit (IsBinaryFile absolutePath) s3)"

text \<open>The three ways of reading one file: an explicit range, a truncated read, the whole file.\<close>

definition read_range ::
  "helpers \<Rightarrow> world \<Rightarrow> int option \<Rightarrow> int option \<Rightarrow> string \<Rightarrow> string \<Rightarrow> int \<Rightarrow> st
     \<Rightarrow> FileResult \<times> st" where
  "read_range h w startLine endLine absolutePath relPath currentTotalLines s4 =
     (let s5 = emit (ReadLines absolutePath endLine startLine) s4 in
      case readLines w (trace s4) absolutePath endLine startLine of
        Inl err \<Rightarrow> read_failed absolutePath relPath err s5
      | Inr lines \<Rightarrow>
          (read_ok relPath
             (addLineNumbers h lines (case startLine of Some a \<Rightarrow> a + 1 | None \<Rightarrow> 1))
             False currentTotalLines [], s5))"

text \<open>
  In the truncated read both promises of \<open>Promise.all\<close> are started before either is
  awaited; when both reject, the model reports the rejection of \<open>readLines\<close>.
\<close>

definition read_truncated ::
  "helpers \<Rightarrow> world \<Rightarrow> int \<Rightarrow> string \<Rightarrow> string \<Rightarrow> int \<Rightarrow> st \<Rightarrow> FileResult \<times> st" where
  "read_truncated h w maxLines absolutePath relPath currentTotalLines s4 =
     (let s5 = (if maxLines > 0
                then emit (ReadLines absolutePath (Some (maxLines - 1)) (Some 0)) s4
                else s4);
          readContentResult =
            (if maxLines > 0
             then readLines w (trace s4) absolutePath (Some (maxLines - 1)) (Some 0)
             else Inr []);
          s6 = emit (ParseSourceCodeDefinitionsForFile absolutePath) s5;
          defResult = parseSourceCodeDefinitionsForFile w (trace s5) absolutePath
      in case readContentResult of
           Inl err \<Rightarrow> read_failed absolutePath relPath err s6
         | Inr content \<Rightarrow>
             (case defResult of
                Inl err \<Rightarrow> read_failed absolutePath relPath err s6
              | Inr def \<Rightarrow>
                  (read_ok relPath
                     (if content \<noteq> [] then addLineNumbers h content 1 else [])
                     True currentTotalLines
                     (case def of
                        None \<Rightarrow> []
                      | Some d \<Rightarrow> (if d = [] then [] else [CHR 0x0A, CHR 0x0A] @ d)), s6)))"

definition read_whole ::
  "world \<Rightarrow> string \<Rightarrow> string \<Rightarrow> int \<Rightarrow> st \<Rightarrow> FileResult \<times> st" where
  "read_whole w absolutePath relPath currentTotalLines s4 =
     (let s5 = emit (ExtractTextFromFile absolutePath) s4 in
      case extractTextFromFile w (trace s4) absolutePath of
        Inl err \<Rightarrow> read_failed absolutePath relPath err s5
      | Inr content \<Rightarrow> (read_ok relPath content False currentTotalLines [], s5))"

text \<open>The body of the reading loop.\<close>

definition read_item ::
  "helpers \<Rightarrow> world \<Rightarrow> bool \<Rightarrow> int option \<Rightarrow> int option \<Rightarrow> int \<Rightarrow> string \<Rightarrow> st
     \<Rightarrow> FileResult \<times> st" where
  "read_item h w isRangeRead startLine endLine maxLines relPath s =
     (let absolutePath = resolve h (cwd h) relPath in
      case validateAccess w relPath s of (ok, s1) \<Rightarrow>
        if \<not> ok then read_failed absolutePath relPath (ignored_error h relPath) s1
        else
          (case count_lines w absolutePath s1 of (currentTotalLines, s3) \<Rightarrow>
             (case detect_binary w absolutePath s3 of (isBinary, s4) \<Rightarrow>
                if isRangeRead then
                  read_range h w startLine endLine absolutePath relPath currentTotalLines s4
                else if \<not> isBinary \<and> maxLines \<ge> 0 \<and> currentTotalLines > maxLines then
                  read_truncated h w maxLines absolutePath relPath currentTotalLines s4
                else read_whole w absolutePath relPath currentTotalLines s4)))"

definition show_opt_int :: "int option \<Rightarrow> string" where
  "show_opt_int v = (case v of None \<Rightarrow> ''undefined'' | Some n \<Rightarrow> show_int n)"

definition truncation_trailer :: "int \<Rightarrow> FileResult \<Rightarrow> string" where
  "truncation_trailer maxLines r =
     [CHR 0x0A, CHR 0x0A] @ ''[Showing only '' @ show_int maxLines @ '' of ''
     @ show_opt_int (fr_totalLines r)
     @ '' total lines. Use start_line and end_line if you need to read more]''
     @ (case fr_sourceCodeDef r of None \<Rightarrow> ''undefined'' | Some d \<Rightarrow> d)"

definition contentBlock :: "int \<Rightarrow> FileResult \<Rightarrow> string \<Rightarrow> string" where
  "contentBlock maxLines r c =
     (if fr_isTruncated r = Some True then c @ truncation_trailer maxLines r else c)"

definition file_element :: "int \<Rightarrow> FileResult \<Rightarrow> string" where
  "file_element maxLines r =
     ''  <file>'' @ [CHR 0x0A] @ ''    <path>'' @ fr_path r @ ''</path>'' @ [CHR 0x0A]
     @ (case fr_content r of
          Some c \<Rightarrow>
            ''    <content>'' @ [CHR 0x0A] @ contentBlock maxLines r c @ [CHR 0x0A]
            @ ''    </content>'' @ [CHR 0x0A]
        | None \<Rightarrow> error_element (fr_error r))
     @ ''  </file>'' @ [CHR 0x0A]"

definition files_report :: "int \<Rightarrow> FileResult list \<Rightarrow> string" where
  "files_report maxLines results =
     ''<files>'' @ [CHR 0x0A] @ concat (map (file_element maxLines) results) @ ''</files>''"

definition read_approval :: "helpers \<Rightarrow> string \<Rightarrow> path_entry list \<Rightarrow> approval" where
  "read_approval h snippet pathsForApproval =
     \<lparr>ap_tool = ''readFiles'',
      ap_paths = approval_paths pathsForApproval,
      ap_reason = Some snippet,
      ap_recursive = None\<rparr>"

definition read_execute ::
  "helpers \<Rightarrow> world \<Rightarrow> bool \<Rightarrow> int option \<Rightarrow> int option \<Rightarrow> int \<Rightarrow> string list \<Rightarrow> st
     \<Rightarrow> FileResult outcome \<times> st" where
  "read_execute h w isRangeRead startLine endLine maxLines relPaths s3 =
     (case run_items (read_item h w isRangeRead startLine endLine maxLines) relPaths s3 of
        (results, s4) \<Rightarrow>
          (Completed results, emit (PushToolResult (files_report maxLines results)) s4))"

text \<open>\<open>const { maxReadFileLine = 500 } = (await ...getState()) ?? {}\<close>.\<close>

definition configured_max :: "provider_state option \<Rightarrow> int" where
  "configured_max state =
     (case state of
        None \<Rightarrow> 500
      | Some ps \<Rightarrow> (case maxReadFileLine ps of None \<Rightarrow> 500 | Some v \<Rightarrow> v))"

definition reject_range :: "helpers \<Rightarrow> string \<Rightarrow> string \<Rightarrow> st \<Rightarrow> st" where
  "reject_range h said err s =
     emit (PushToolResult (toolError h err))
       (emit (Say ''error'' said)
          (s\<lparr>consecutiveMistakeCount := consecutiveMistakeCount s + 1\<rparr>))"

definition readFilesTool :: "helpers \<Rightarrow> world \<Rightarrow> block \<Rightarrow> st \<Rightarrow> FileResult outcome \<times> st" where
  "readFilesTool h w b s =
     (if \<not> nonempty_array (params_paths b) then
        (Rejected, missing_paths w ''read_files'' ''Expected a non-empty array of file paths.'' s)
      else
        (let relPaths = filter_paths (array_items (params_paths b)) in
         if relPaths = [] then (Rejected, no_valid_paths h s)
         else
           (case parse_line_range (params_start_line b) (params_end_line b) of
              Inl (said, err) \<Rightarrow> (Rejected, reject_range h said err s)
            | Inr (isRangeRead, startLine, endLine) \<Rightarrow>
                (let maxLines = configured_max (getState w (trace s));
                     s0 = emit GetState s
                 in
                 case run_items (check_path h w) relPaths s0 of (pathsForApproval, s1) \<Rightarrow>
                   (let disallowedPaths = disallowed pe_readablePath pathsForApproval in
                    if disallowedPaths \<noteq> [] then (Rejected, reject_ignored h disallowedPaths s1)
                    else gate w b
                           (read_approval h (lineSnippet h startLine endLine maxLines) pathsForApproval)
                           (read_execute h w isRangeRead startLine endLine maxLines relPaths) s1)))))"

section \<open>writeFilesTool\<close>

record WriteItem =
  wi_path :: string
  wi_content :: string

text \<open>\<open>!item || typeof item !== "object"\<close>, negated: arrays and objects pass.\<close>

definition is_object :: "jsval \<Rightarrow> bool" where
  "is_object v = (case v of Arr _ \<Rightarrow> True | Obj _ \<Rightarrow> True | _ \<Rightarrow> False)"

text \<open>Reading the property \<open>path\<close> or \<open>content\<close> of a value that is neither null nor undefined.\<close>

definition get_prop :: "jsval \<Rightarrow> string \<Rightarrow> jsval" where
  "get_prop v name =
     (case v of
        Obj props \<Rightarrow> (case map_of props name of None \<Rightarrow> Undefined | Some x \<Rightarrow> x)
      | _ \<Rightarrow> Undefined)"

definition is_str :: "jsval \<Rightarrow> bool" where
  "is_str v = (case v of Str _ \<Rightarrow> True | _ \<Rightarrow> False)"

definition str_of :: "jsval \<Rightarrow> string" where
  "str_of v = (case v of Str x \<Rightarrow> x | _ \<Rightarrow> [])"

text \<open>\<open>typeof item.path === "string" && item.path.trim() !== ""\<close>.\<close>

definition path_ok :: "jsval \<Rightarrow> bool" where
  "path_ok item = (valid_path (get_prop item ''path'') \<noteq> None)"

text \<open>
  One turn of the validation loop at index \<open>i\<close>, on the two arrays it fills: whether
  the loop goes on (\<open>False\<close> is \<open>break\<close>), and the arrays after the turn. An item is
  kept only while \<open>validationErrors\<close> is still empty.
\<close>

definition validate_item ::
  "nat \<Rightarrow> jsval \<Rightarrow> WriteItem list \<Rightarrow> string list \<Rightarrow> bool \<times> WriteItem list \<times> string list" where
  "validate_item i item validItems validationErrors =
     (if \<not> is_object item then
        (True, validItems,
         validationErrors @ [''Item at index '' @ show_nat i @ '' is not a valid object.''])
      else
        (let errors1 = (if \<not> path_ok item
                        then validationErrors @ [''Item at index '' @ show_nat i @ '' is missing a valid 'path'.'']
                        else validationErrors);
             errors2 = (if \<not> is_str (get_prop item ''content'')
                        then errors1 @ [''Item at index '' @ show_nat i @ '' is missing 'content'.'']
                        else errors1)
         in
         if errors2 = [] \<and> path_ok item then
           (True,
            validItems @ [\<lparr>wi_path = trim (str_of (get_prop item ''path'')),
                            wi_content = str_of (get_prop item ''content'')\<rparr>], errors2)
         else if \<not> path_ok item \<and> \<not> is_str (get_prop item ''content'') then
           (False, validItems, errors2)
         else (True, validItems, errors2)))"

fun validate_items ::
  "nat \<Rightarrow> jsval list \<Rightarrow> WriteItem list \<Rightarrow> string list \<Rightarrow> WriteItem list \<times> string list" where
  "validate_items i [] validItems validationErrors = (validItems, validationErrors)"
| "validate_items i (item # rest) validItems validationErrors =
     (case validate_item i item validItems validationErrors of
        (goOn, validItems', validationErrors') \<Rightarrow>
          (if goOn then validate_items (Suc i) rest validItems' validationErrors'
           else (validItems', validationErrors')))"

text \<open>
  \<open>itemsInput.findIndex((inputItem) => inputItem.path === item.path)\<close>: reading \<open>path\<close>
  of null or undefined throws (\<open>None\<close>); no match is \<open>-1\<close>.
\<close>

fun findIndex :: "nat \<Rightarrow> jsval list \<Rightarrow> string \<Rightarrow> int option" where
  "findIndex i [] p = Some (- 1)"
| "findIndex i (inputItem # rest) p =
     (if inputItem = Null \<or> inputItem = Undefined then None
      else if get_prop inputItem ''path'' = Str p then Some (int i)
      else findIndex (Suc i) rest p)"

text \<open>
  The predicate of the filter that gives \<open>itemsToProcess\<close>: an item is dropped when some
  error names the index found for its path and says the path is missing. \<open>some\<close> on an
  empty array calls nothing; otherwise \<open>findIndex\<close> runs and may throw (\<open>None\<close>).
\<close>

definition path_error_at :: "string list \<Rightarrow> int \<Rightarrow> bool" where
  "path_error_at validationErrors k =
     list_ex (\<lambda>err. str_includes err (''Item at index '' @ show_int k)
                    \<and> str_includes err (''missing a valid 'path'' @ [CHR 0x27])) validationErrors"

definition keeps :: "jsval list \<Rightarrow> string list \<Rightarrow> WriteItem \<Rightarrow> bool option" where
  "keeps itemsInput validationErrors item =
     (if validationErrors = [] then Some True
      else map_option (\<lambda>k. \<not> path_error_at validationErrors k)
             (findIndex 0 itemsInput (wi_path item)))"

fun filter_valid :: "jsval list \<Rightarrow> string list \<Rightarrow> WriteItem list \<Rightarrow> WriteItem list option" where
  "filter_valid itemsInput validationErrors [] = Some []"
| "filter_valid itemsInput validationErrors (item # rest) =
     (case keeps itemsInput validationErrors item of
        None \<Rightarrow> None
      | Some keep \<Rightarrow>
          map_option (\<lambda>kept. if keep then item # kept else kept)
            (filter_valid itemsInput validationErrors rest))"

text \<open>
  The test that no error can pass: one message that names both a missing path and a
  missing content.
\<close>

definition both_missing :: "string list \<Rightarrow> bool" where
  "both_missing validationErrors =
     (validationErrors \<noteq> []
      \<and> list_ex (\<lambda>err. str_includes err (''missing a valid 'path'' @ [CHR 0x27])
                       \<and> str_includes err (''missing 'content'' @ [CHR 0x27])) validationErrors)"




text \<open>\<open>new TextEncoder().encode(content)\<close>: the bytes of the string.\<close>

definition encode :: "string \<Rightarrow> nat list" where
  "encode content = map of_char content"

definition write_failed :: "string \<Rightarrow> js_error \<Rightarrow> st \<Rightarrow> WriteResult \<times> st" where
  "write_failed relPath err s =
     (let errorMsg = ''Error writing file '' @ relPath @ '': '' @ message_or err ''Unknown error'';
          s1 = emit (ConsoleError errorMsg) s;
          s2 = emit (HandleError (''writing file '' @ relPath) err) s1
      in (\<lparr>sr_path = relPath, sr_status = Error,
           sr_error = Some (message_or err ''Unknown error'')\<rparr>, s2))"

definition write_item :: "helpers \<Rightarrow> world \<Rightarrow> WriteItem \<Rightarrow> st \<Rightarrow> WriteResult \<times> st" where
  "write_item h w item s =
     (let absolutePath = resolve h (cwd h) (wi_path item);
          dir = dirname h absolutePath;
          needsDir = (dir \<noteq> absolutePath \<and> dir \<noteq> cwd h \<and> dir \<noteq> ''.'');
          made = (if needsDir then fs_createDirectory w (trace s) dir else None);
          s1 = (if needsDir then emit (FsCreateDirectory dir) s else s)
      in case made of
           Some err \<Rightarrow> write_failed (wi_path item) err s1
         | None \<Rightarrow>
             (let contentUint8Array = encode (wi_content item);
                  s2 = emit (FsWriteFile absolutePath contentUint8Array) s1
              in case fs_writeFile w (trace s1) absolutePath contentUint8Array of
                   Some err \<Rightarrow> write_failed (wi_path item) err s2
                 | None \<Rightarrow>
                     (\<lparr>sr_path = wi_path item, sr_status = Success, sr_error = None\<rparr>,
                      s2\<lparr>didEditFile := True\<rparr>)))"

definition write_summary :: "WriteResult list \<Rightarrow> string" where
  "write_summary results =
     ''Batch write operation completed. '' @ show_nat (successCount results)
     @ '' file(s) written successfully.''
     @ (if errorCount results > 0
        then '' '' @ show_nat (errorCount results) @ '' file(s) failed to write.''
        else [])"

text \<open>The existence probe of the approval step: one call per item, in order.\<close>

definition file_status :: "helpers \<Rightarrow> world \<Rightarrow> WriteItem \<Rightarrow> st \<Rightarrow> (string \<times> bool) \<times> st" where
  "file_status h w item s =
     (let absolutePath = resolve h (cwd h) (wi_path item)
      in ((wi_path item, fileExistsAtPath w (trace s) absolutePath),
          emit (FileExistsAtPath absolutePath) s))"

definition write_reason :: "(string \<times> bool) list \<Rightarrow> string" where
  "write_reason fileStatuses =
     (let newFiles = filter (\<lambda>st. \<not> snd st) fileStatuses;
          existingFiles = filter snd fileStatuses
      in ''Will create '' @ show_nat (length newFiles) @ '' new file(s)''
         @ (if length existingFiles > 0
            then '' and overwrite '' @ show_nat (length existingFiles) @ '' existing file(s)''
            else [])
         @ ''.'')"

definition write_approval_paths :: "(string \<times> bool) list \<Rightarrow> path_entry list \<Rightarrow> approval_path list" where
  "write_approval_paths fileStatuses entries =
     map (\<lambda>p. \<lparr>ap_path = pe_readablePath p, ap_isOutsideWorkspace = pe_isOutsideWorkspace p,
               ap_status = Some (if map_of fileStatuses (pe_path p) = Some True
                                 then ''overwrite'' else ''create'')\<rparr>) entries"

definition reject_items :: "helpers \<Rightarrow> string \<Rightarrow> st \<Rightarrow> st" where
  "reject_items h errorMsg s =
     emit (PushToolResult (toolError h errorMsg))
       (emit (Say ''error'' errorMsg)
          (s\<lparr>consecutiveMistakeCount := consecutiveMistakeCount s + 1\<rparr>))"

definition write_approval :: "(string \<times> bool) list \<Rightarrow> path_entry list \<Rightarrow> approval" where
  "write_approval fileStatuses pathsForApproval =
     \<lparr>ap_tool = ''writeFiles'',
      ap_paths = write_approval_paths fileStatuses pathsForApproval,
      ap_reason = Some (write_reason fileStatuses),
      ap_recursive = None\<rparr>"

definition write_execute ::
  "helpers \<Rightarrow> world \<Rightarrow> WriteItem list \<Rightarrow> st \<Rightarrow> WriteResult outcome \<times> st" where
  "write_execute h w itemsToProcess s4 =
     (case run_items (write_item h w) itemsToProcess s4 of (results, s5) \<Rightarrow>
        (Completed results,
         emit (PushToolResult (status_report ''write_results'' ''file'' results))
           (emit (Say ''text'' (write_summary results)) s5)))"

definition missing_items :: "world \<Rightarrow> st \<Rightarrow> st" where
  "missing_items w s =
     emit (PushToolResult (missingParamError w ''write_files'' ''items''
             ''Expected a non-empty array of {path, content} objects.''))
       (emit (SayAndCreateMissingParamError ''write_files'' ''items''
                ''Expected a non-empty array of {path, content} objects.'')
          (s\<lparr>consecutiveMistakeCount := consecutiveMistakeCount s + 1\<rparr>))"

text \<open>The part of the tool from the ignore check on, for the items that validation kept.\<close>

definition write_checked ::
  "helpers \<Rightarrow> world \<Rightarrow> block \<Rightarrow> WriteItem list \<Rightarrow> st \<Rightarrow> WriteResult outcome \<times> st" where
  "write_checked h w b itemsToProcess s =
     (case run_items (check_path h w) (map wi_path itemsToProcess) s of
        (pathsForApproval, s1) \<Rightarrow>
          (let disallowedPaths = disallowed pe_path pathsForApproval in
           if disallowedPaths \<noteq> [] then (Rejected, reject_ignored h disallowedPaths s1)
           else
             (case run_items (file_status h w) itemsToProcess s1 of
                (fileStatuses, s2) \<Rightarrow>
                  gate w b (write_approval fileStatuses pathsForApproval)
                    (write_execute h w itemsToProcess) s2)))"

definition writeFilesTool :: "helpers \<Rightarrow> world \<Rightarrow> block \<Rightarrow> st \<Rightarrow> WriteResult outcome \<times> st" where
  "writeFilesTool h w b s =
     (if \<not> nonempty_array (params_items b) then (Rejected, missing_items w s)
      else
        (let itemsInput = array_items (params_items b) in
         case validate_items 0 itemsInput [] [] of (validItems, validationErrors) \<Rightarrow>
           if both_missing validationErrors then
             (Rejected,
              reject_items h (''Invalid 'items' parameter: '' @ join ''; '' validationErrors) s)
           else
             (case filter_valid itemsInput validationErrors validItems of
                None \<Rightarrow> (Threw, s)
              | Some itemsToProcess \<Rightarrow>
                  if itemsToProcess = [] \<and> length itemsInput > 0 then
                    (Rejected,
                     reject_items h (''Invalid 'items' parameter: No valid items found. Errors: ''
                                     @ join ''; '' validationErrors) s)
                  else write_checked h w b itemsToProcess s)))"

section \<open>Observing a trace\<close>

text \<open>The events that an invocation added to the trace it started from.\<close>

definition new_events :: "st \<Rightarrow> st \<Rightarrow> event list" where
  "new_events s s' = drop (length (trace s)) (trace s')"

definition extends :: "st \<Rightarrow> st \<Rightarrow> bool" where
  "extends s s' = (take (length (trace s)) (trace s') = trace s)"

text \<open>From \<open>s\<close> to \<open>s'\<close> the trace only grew, by events of the kind \<open>Q\<close>.\<close>

definition grows :: "(event \<Rightarrow> bool) \<Rightarrow> st \<Rightarrow> st \<Rightarrow> bool" where
  "grows Q s s' = (extends s s' \<and> list_all Q (new_events s s'))"

text \<open>
  The calls of the per-item collaborators: the file system operations that the loops of
  the five tools perform on an item.
\<close>

fun is_item_op :: "event \<Rightarrow> bool" where
  "is_item_op (CountFileLines _) = True"
| "is_item_op (IsBinaryFile _) = True"
| "is_item_op (ReadLines _ _ _) = True"
| "is_item_op (ParseSourceCodeDefinitionsForFile _) = True"
| "is_item_op (ExtractTextFromFile _) = True"
| "is_item_op (ListFiles _ _ _) = True"
| "is_item_op (FsDelete _ _ _) = True"
| "is_item_op (FsCreateDirectory _) = True"
| "is_item_op (FsWriteFile _ _) = True"
| "is_item_op _ = False"

fun is_report :: "event \<Rightarrow> bool" where
  "is_report (PushToolResult _) = True"
| "is_report _ = False"

fun is_request :: "event \<Rightarrow> bool" where
  "is_request (Ask _) = True"
| "is_request (AskApproval _ _) = True"
| "is_request _ = False"

fun is_denial :: "event \<Rightarrow> bool" where
  "is_denial (AskApproval _ ok) = (\<not> ok)"
| "is_denial _ = False"



fun is_handle_error :: "event \<Rightarrow> bool" where
  "is_handle_error (HandleError _ _) = True"
| "is_handle_error _ = False"

fun is_delete :: "event \<Rightarrow> bool" where
  "is_delete (FsDelete _ _ _) = True"
| "is_delete _ = False"

fun is_write :: "event \<Rightarrow> bool" where
  "is_write (FsWriteFile _ _) = True"
| "is_write _ = False"

fun is_mkdir :: "event \<Rightarrow> bool" where
  "is_mkdir (FsCreateDirectory _) = True"
| "is_mkdir _ = False"

text \<open>The queries made before the approval request.\<close>

fun is_probe :: "event \<Rightarrow> bool" where
  "is_probe (ValidateAccess _ _) = True"
| "is_probe (FileExistsAtPath _) = True"
| "is_probe GetState = True"
| "is_probe _ = False"

text \<open>What the body of an execution loop can add.\<close>

fun is_exec :: "event \<Rightarrow> bool" where
  "is_exec (ValidateAccess _ _) = True"
| "is_exec (ConsoleWarn _) = True"
| "is_exec (ConsoleError _) = True"
| "is_exec (HandleError _ _) = True"
| "is_exec e = is_item_op e"

text \<open>The paths whose access check answered no, in the order of the checks.\<close>

definition denied_paths :: "event list \<Rightarrow> string list" where
  "denied_paths evs =
     concat (map (\<lambda>e. case e of ValidateAccess p ok \<Rightarrow> (if ok then [] else [p]) | _ \<Rightarrow> []) evs)"

text \<open>The state in which the execution part starts after an approval.\<close>

definition approved_state :: "approval \<Rightarrow> st \<Rightarrow> st" where
  "approved_state approvalContent s1 =
     emit (AskApproval approvalContent True) (s1\<lparr>consecutiveMistakeCount := 0\<rparr>)"


text \<open>No per-item operation, no tool result, no call of \<open>handleError\<close>.\<close>

definition quiet :: "event list \<Rightarrow> bool" where
  "quiet evs = (filter is_item_op evs = [] \<and> filter is_report evs = []
                \<and> filter is_handle_error evs = [])"




section \<open>The five tools, side by side\<close>

datatype tool = ReadFiles | WriteFiles | DeleteItems | CreateDirectories | ListDirectories

text \<open>An invocation of a tool by name; a completed one gives the paths of its results.\<close>

definition run_tool :: "tool \<Rightarrow> helpers \<Rightarrow> world \<Rightarrow> block \<Rightarrow> st \<Rightarrow> string outcome \<times> st" where
  "run_tool t h w b s =
     (case t of
        ReadFiles \<Rightarrow> map_prod (map_outcome fr_path) id (readFilesTool h w b s)
      | WriteFiles \<Rightarrow> map_prod (map_outcome sr_path) id (writeFilesTool h w b s)
      | DeleteItems \<Rightarrow> map_prod (map_outcome sr_path) id (deleteItemsTool h w b s)
      | CreateDirectories \<Rightarrow> map_prod (map_outcome sr_path) id (createDirectoriesTool h w b s)
      | ListDirectories \<Rightarrow> map_prod (map_outcome lr_path) id (listDirectoriesTool h w b s))"

definition tool_events :: "tool \<Rightarrow> helpers \<Rightarrow> world \<Rightarrow> block \<Rightarrow> st \<Rightarrow> event list" where
  "tool_events t h w b s = new_events s (snd (run_tool t h w b s))"





section \<open>A small world to run the tools in\<close>

text \<open>
  A working directory \<open>/ws\<close> with POSIX paths; the texts of the helper modules are
  abbreviated. The world is given by its ignore controller, the answer of the approval
  authority, the paths on which the file system fails, and the provider state.
\<close>

definition ex_dirname :: "string \<Rightarrow> string" where
  "ex_dirname p = rev (drop 1 (dropWhile (\<lambda>c. c \<noteq> CHR ''/'') (rev p)))"

definition ex_helpers :: helpers where
  "ex_helpers =
     \<lparr>cwd = ''/ws'',
      resolve = (\<lambda>dir p. dir @ ''/'' @ p),
      dirname = ex_dirname,
      getReadablePath = (\<lambda>dir p. p),
      isPathOutsideWorkspace = (\<lambda>p. False),
      rooIgnoreError = (\<lambda>p. ''Access to '' @ p @ '' is blocked by the .rooignore file settings.''),
      toolError = (\<lambda>e. ''<error>'' @ e @ ''</error>''),
      i18n_t = (\<lambda>key args. key),
      addLineNumbers = (\<lambda>content start. content),
      formatFilesList = (\<lambda>dir files didHitLimit showIgnored. join [CHR 0x0A] files)\<rparr>"

definition ex_world ::
  "(string \<Rightarrow> bool) option \<Rightarrow> bool \<Rightarrow> (string \<Rightarrow> js_error option) \<Rightarrow> provider_state option \<Rightarrow> world" where
  "ex_world controller answer failing state =
     \<lparr>rooIgnoreController = map_option (\<lambda>allowed tr p. allowed p) controller,
      askApproval = (\<lambda>tr a. answer),
      missingParamError = (\<lambda>toolName param msg. ''Missing value for '' @ param @ ''. '' @ msg),
      getState = (\<lambda>tr. state),
      fileExistsAtPath = (\<lambda>tr p. False),
      countFileLines = (\<lambda>tr p. case failing p of Some err \<Rightarrow> Inl err | None \<Rightarrow> Inr 600),
      isBinaryFile = (\<lambda>tr p. Inr False),
      readLines = (\<lambda>tr p endLine startLine.
                     case failing p of Some err \<Rightarrow> Inl err | None \<Rightarrow> Inr ''first lines''),
      parseSourceCodeDefinitionsForFile = (\<lambda>tr p. Inr (Some ''# outline'')),
      extractTextFromFile = (\<lambda>tr p. case failing p of Some err \<Rightarrow> Inl err | None \<Rightarrow> Inr ''whole file''),
      listFiles = (\<lambda>tr p recursive limit.
                     case failing p of Some err \<Rightarrow> Inl err | None \<Rightarrow> Inr ([''a.txt''], False)),
      fs_delete = (\<lambda>tr p recursive useTrash. failing p),
      fs_createDirectory = (\<lambda>tr p. failing p),
      fs_writeFile = (\<lambda>tr p content. failing p)\<rparr>"

definition ex_state :: st where
  "ex_state = \<lparr>trace = [], consecutiveMistakeCount = 0, didEditFile = False\<rparr>"

definition ex_block :: "jsval \<Rightarrow> block" where
  "ex_block paths =
     \<lparr>params_paths = paths, params_items = Undefined, params_start_line = None,
      params_end_line = None, params_recursive = None, partial = False\<rparr>"

definition not_found :: js_error where
  "not_found = \<lparr>err_code = Some ''FileNotFound'', err_message = Some ''FileNotFound''\<rparr>"

definition permission_denied :: js_error where
  "permission_denied = \<lparr>err_code = Some ''NoPermissions'', err_message = Some ''Permission denied''\<rparr>"

text \<open>A file system on which nothing fails.\<close>

definition no_failure :: "string \<Rightarrow> js_error option" where
  "no_failure p = None"

definition ex_items :: "jsval \<Rightarrow> block" where
  "ex_items items =
     \<lparr>params_paths = Undefined, params_items = items, params_start_line = None,
      params_end_line = None, params_recursive = None, partial = False\<rparr>"



text \<open>The file system fails on \<open>/ws/A\<close> with the given error and on nothing else.\<close>

definition fails_on_A :: "js_error \<Rightarrow> string \<Rightarrow> js_error option" where
  "fails_on_A err p = (if p = ''/ws/A'' then Some err else None)"



section \<open>Properties of the shared parts\<close>

subsection \<open>Traces grow\<close>

lemma trace_emit [simp]: "trace (emit e s) = trace s @ [e]"
  by (simp add: emit_def)

lemma extends_refl [simp]: "extends s s"
  by (simp add: extends_def)

lemma extends_append: "extends s s' \<Longrightarrow> trace s' = trace s @ new_events s s'"
  by (metis append_take_drop_id extends_def new_events_def)

lemma extendsI: "trace s' = trace s @ evs \<Longrightarrow> extends s s'"
  by (simp add: extends_def)

lemma new_eventsI: "trace s' = trace s @ evs \<Longrightarrow> new_events s s' = evs"
  by (simp add: new_events_def)

lemma new_events_self [simp]: "new_events s s = []"
  by (simp add: new_events_def)

lemma extends_trans: "extends s s1 \<Longrightarrow> extends s1 s2 \<Longrightarrow> extends s s2"
  by (metis append.assoc extendsI extends_append)

lemma new_events_trans:
  "extends s s1 \<Longrightarrow> extends s1 s2 \<Longrightarrow> new_events s s2 = new_events s s1 @ new_events s1 s2"
  by (metis append.assoc extends_append new_eventsI)

lemma extends_emit [simp]: "extends s (emit e s)"
  by (simp add: extends_def)

lemma new_events_emit: "extends s s1 \<Longrightarrow> new_events s (emit e s1) = new_events s s1 @ [e]"
  by (metis append.assoc extends_append new_eventsI trace_emit)

lemma extends_emit_after: "extends s s1 \<Longrightarrow> extends s (emit e s1)"
  by (metis extends_emit extends_trans)

subsection \<open>The shared loop\<close>

lemma run_items_length: "length (fst (run_items body xs s)) = length xs"
  by (induction xs arbitrary: s) (simp_all add: case_prod_beta)

lemma run_items_append:
  "run_items body (xs @ ys) s =
     (case run_items body xs s of (r1, s1) \<Rightarrow>
        (case run_items body ys s1 of (r2, s2) \<Rightarrow> (r1 @ r2, s2)))"
  by (induction xs arbitrary: s) (simp_all add: case_prod_beta)

lemma run_items_map:
  assumes "\<And>x s. proj (fst (body x s)) = f x"
  shows "map proj (fst (run_items body xs s)) = map f xs"
  by (induction xs arbitrary: s) (simp_all add: case_prod_beta assms)

lemma run_items_extends:
  assumes "\<And>x s. extends s (snd (body x s))"
  shows "extends s (snd (run_items body xs s))"
proof (induction xs arbitrary: s)
  case Nil
  show ?case by simp
next
  case (Cons x xs)
  have "extends s (snd (body x s))" by (rule assms)
  moreover have "extends (snd (body x s)) (snd (run_items body xs (snd (body x s))))"
    by (rule Cons.IH)
  ultimately show ?case
    by (simp add: case_prod_beta extends_trans)
qed

lemma run_items_step:
  assumes ext: "\<And>x s. extends s (snd (body x s))"
  shows "new_events s (snd (run_items body (x # xs) s))
           = new_events s (snd (body x s))
             @ new_events (snd (body x s)) (snd (run_items body xs (snd (body x s))))"
  by (simp add: case_prod_beta new_events_trans [OF ext run_items_extends [OF ext]])

lemma run_items_events:
  assumes ext: "\<And>x s. extends s (snd (body x s))"
    and ev: "\<And>x s. map k (filter P (new_events s (snd (body x s)))) = g x"
  shows "map k (filter P (new_events s (snd (run_items body xs s)))) = concat (map g xs)"
proof (induction xs arbitrary: s)
  case Nil
  show ?case by simp
next
  case (Cons x xs)
  show ?case
    by (subst run_items_step [OF ext]) (simp add: ev Cons.IH)
qed

lemma run_items_all:
  assumes ext: "\<And>x s. extends s (snd (body x s))"
    and ev: "\<And>x s. list_all Q (new_events s (snd (body x s)))"
  shows "list_all Q (new_events s (snd (run_items body xs s)))"
proof (induction xs arbitrary: s)
  case Nil
  show ?case by simp
next
  case (Cons x xs)
  show ?case
    by (subst run_items_step [OF ext]) (simp add: ev Cons.IH)
qed

lemma run_items_nth:
  "i < length xs \<Longrightarrow>
     fst (run_items body xs s) ! i = fst (body (xs ! i) (snd (run_items body (take i xs) s)))"
proof (induction xs arbitrary: s i)
  case Nil
  then show ?case by simp
next
  case (Cons x xs)
  then show ?case
    by (cases i) (simp_all add: case_prod_beta)
qed

lemma run_items_take_extends:
  assumes ext: "\<And>x s. extends s (snd (body x s))"
  shows "extends (snd (run_items body (take i xs) s)) (snd (run_items body xs s))"
proof -
  have "run_items body xs s = run_items body (take i xs @ drop i xs) s" by simp
  also have "snd \<dots> = snd (run_items body (drop i xs) (snd (run_items body (take i xs) s)))"
    by (simp only: run_items_append) (simp add: case_prod_beta)
  finally show ?thesis
    by (simp add: run_items_extends [OF ext])
qed

subsection \<open>Kinds of events\<close>

lemma probe_kinds:
  "is_probe e \<Longrightarrow> \<not> is_item_op e \<and> \<not> is_report e \<and> \<not> is_request e \<and> \<not> is_denial e
     \<and> \<not> is_handle_error e \<and> \<not> is_delete e \<and> \<not> is_write e \<and> \<not> is_mkdir e"
  by (cases e) simp_all

lemma exec_kinds:
  "is_exec e \<Longrightarrow> \<not> is_report e \<and> \<not> is_request e \<and> \<not> is_denial e"
  by (cases e) simp_all

lemma filter_none: "list_all Q evs \<Longrightarrow> (\<And>e. Q e \<Longrightarrow> \<not> P e) \<Longrightarrow> filter P evs = []"
  by (induction evs) auto

lemma probes_quiet:
  assumes "list_all is_probe evs"
  shows "filter is_item_op evs = []" "filter is_report evs = []" "filter is_request evs = []"
    "filter is_denial evs = []" "filter is_handle_error evs = []" "filter is_delete evs = []"
    "filter is_write evs = []" "filter is_mkdir evs = []"
  using assms probe_kinds by (auto intro!: filter_none)

lemma exec_quiet:
  assumes "list_all is_exec evs"
  shows "filter is_report evs = []" "filter is_request evs = []" "filter is_denial evs = []"
  using assms exec_kinds by (auto intro!: filter_none)

subsection \<open>The approval step\<close>

lemma gate_outcome:
  "fst (gate w b a ex s1) =
     (if partial b then Announced
      else if askApproval w (trace s1) a then fst (ex (approved_state a s1))
      else Denied)"
  by (simp add: gate_def approved_state_def Let_def)

lemma gate_extends:
  assumes "\<And>s3. extends s3 (snd (ex s3))"
  shows "extends s1 (snd (gate w b a ex s1))"
proof -
  have "extends s1 (approved_state a s1)"
    by (rule extendsI [of _ _ "[AskApproval a True]"]) (simp add: approved_state_def)
  then have "extends s1 (snd (ex (approved_state a s1)))"
    using assms extends_trans by blast
  moreover have "extends s1 (emit (AskApproval a False) (s1\<lparr>consecutiveMistakeCount := 0\<rparr>))"
    by (rule extendsI [of _ _ "[AskApproval a False]"]) simp
  ultimately show ?thesis
    by (simp add: gate_def approved_state_def Let_def)
qed

lemma gate_events:
  assumes "\<And>s3. extends s3 (snd (ex s3))"
  shows "new_events s1 (snd (gate w b a ex s1)) =
     (if partial b then [Ask a]
      else if askApproval w (trace s1) a
           then AskApproval a True
                # new_events (approved_state a s1) (snd (ex (approved_state a s1)))
      else [AskApproval a False])"
proof -
  have 1: "trace (approved_state a s1) = trace s1 @ [AskApproval a True]"
    by (simp add: approved_state_def)
  have 2: "trace (snd (ex (approved_state a s1)))
             = trace (approved_state a s1)
               @ new_events (approved_state a s1) (snd (ex (approved_state a s1)))"
    by (rule extends_append [OF assms])
  have 3: "new_events s1 (snd (ex (approved_state a s1)))
             = AskApproval a True
               # new_events (approved_state a s1) (snd (ex (approved_state a s1)))"
    by (rule new_eventsI) (simp add: 2 1)
  have 4: "new_events s1 (emit (AskApproval a False) (s1\<lparr>consecutiveMistakeCount := 0\<rparr>))
             = [AskApproval a False]"
    by (rule new_eventsI) simp
  have 5: "new_events s1 (emit (Ask a) s1) = [Ask a]"
    by (rule new_eventsI) simp
  show ?thesis
    using 3 4 5 by (simp add: gate_def Let_def approved_state_def)
qed

subsection \<open>The pre-approval pass\<close>

lemma check_path_trace:
  "trace (snd (check_path h w x s)) = trace s @
     (case rooIgnoreController w of None \<Rightarrow> [] | Some f \<Rightarrow> [ValidateAccess x (f (trace s) x)])"
  by (simp add: check_path_def validateAccess_def Let_def split: option.splits)

lemma check_path_extends: "extends s (snd (check_path h w x s))"
  by (rule extendsI [OF check_path_trace])

lemma check_path_events:
  "new_events s (snd (check_path h w x s)) =
     (case rooIgnoreController w of None \<Rightarrow> [] | Some f \<Rightarrow> [ValidateAccess x (f (trace s) x)])"
  by (rule new_eventsI [OF check_path_trace])

lemma check_path_entry:
  "fst (check_path h w x s) =
     \<lparr>pe_path = x, pe_readablePath = getReadablePath h (cwd h) x,
      pe_isOutsideWorkspace = isPathOutsideWorkspace h (resolve h (cwd h) x),
      pe_accessAllowed = (case rooIgnoreController w of None \<Rightarrow> True | Some f \<Rightarrow> f (trace s) x)\<rparr>"
  by (simp add: check_path_def validateAccess_def Let_def split: option.splits)

lemma check_loop_extends: "extends s (snd (run_items (check_path h w) xs s))"
  by (rule run_items_extends [OF check_path_extends])

lemma check_loop_probe: "list_all is_probe (new_events s (snd (run_items (check_path h w) xs s)))"
  by (rule run_items_all [OF check_path_extends])
     (simp add: check_path_events split: option.splits)

lemma check_loop_paths: "map pe_path (fst (run_items (check_path h w) xs s)) = xs"
  using run_items_map [of pe_path "check_path h w" "\<lambda>x. x" xs s]
  by (simp add: check_path_entry)

lemma denied_paths_append [simp]: "denied_paths (xs @ ys) = denied_paths xs @ denied_paths ys"
  by (simp add: denied_paths_def)

lemma denied_paths_Nil [simp]: "denied_paths [] = []"
  by (simp add: denied_paths_def)

lemma disallowed_Cons:
  "disallowed name (e # es)
     = (if pe_accessAllowed e then [] else [name e]) @ disallowed name es"
  by (simp add: disallowed_def)

lemma check_loop_disallowed:
  assumes "\<And>x s. name (fst (check_path h w x s)) = k x"
  shows "disallowed name (fst (run_items (check_path h w) xs s))
           = map k (denied_paths (new_events s (snd (run_items (check_path h w) xs s))))"
proof (induction xs arbitrary: s)
  case Nil
  show ?case by (simp add: disallowed_def)
next
  case (Cons x xs)
  have first: "denied_paths (new_events s (snd (check_path h w x s)))
                 = (if pe_accessAllowed (fst (check_path h w x s)) then [] else [x])"
    by (simp add: check_path_events check_path_entry denied_paths_def split: option.splits)
  show ?case
    by (subst run_items_step [OF check_path_extends])
       (simp add: case_prod_beta disallowed_Cons assms first Cons.IH)
qed


lemma check_loop_disallowed_path:
  "disallowed pe_path (fst (run_items (check_path h w) xs s))
     = denied_paths (new_events s (snd (run_items (check_path h w) xs s)))"
  using check_loop_disallowed [of pe_path h w "\<lambda>x. x" xs s]
  by (simp add: check_path_entry)


lemma denied_paths_none:
  "rooIgnoreController w = None \<Longrightarrow>
     denied_paths (new_events s (snd (run_items (check_path h w) xs s))) = []"
proof (induction xs arbitrary: s)
  case Nil
  show ?case by simp
next
  case (Cons x xs)
  then show ?case
    by (subst run_items_step [OF check_path_extends]) (simp add: check_path_events)
qed

lemma denied_paths_allowed:
  assumes "rooIgnoreController w = Some f" and "\<And>tr p. p \<in> set xs \<Longrightarrow> f tr p"
  shows "denied_paths (new_events s (snd (run_items (check_path h w) xs s))) = []"
  using assms(2)
proof (induction xs arbitrary: s)
  case Nil
  show ?case by simp
next
  case (Cons x xs)
  then show ?case
    by (subst run_items_step [OF check_path_extends])
       (simp add: check_path_events assms(1) denied_paths_def)
qed

lemma file_status_trace:
  "trace (snd (file_status h w item s))
     = trace s @ [FileExistsAtPath (resolve h (cwd h) (wi_path item))]"
  by (simp add: file_status_def Let_def)

lemma file_status_extends: "extends s (snd (file_status h w item s))"
  by (rule extendsI [OF file_status_trace])

lemma status_loop_extends: "extends s (snd (run_items (file_status h w) xs s))"
  by (rule run_items_extends [OF file_status_extends])

lemma status_loop_probe: "list_all is_probe (new_events s (snd (run_items (file_status h w) xs s)))"
  by (rule run_items_all [OF file_status_extends])
     (simp add: new_eventsI [OF file_status_trace])

subsection \<open>The loop bodies\<close>

lemma delete_item_trace:
  "trace (snd (delete_item h w x s)) = trace s @
     FsDelete (resolve h (cwd h) x) True False #
     (case fs_delete w (trace s) (resolve h (cwd h) x) True False of
        None \<Rightarrow> []
      | Some err \<Rightarrow>
          (if err_code err = Some ''FileNotFound'' then []
           else [ConsoleError (''Error deleting '' @ x @ '': '' @ message_or err ''Unknown error''),
                 HandleError (''deleting '' @ x) err]))"
  by (simp add: delete_item_def Let_def split: option.splits)

lemmas delete_item_extends = extendsI [OF delete_item_trace]
lemmas delete_item_events = new_eventsI [OF delete_item_trace]


lemma delete_item_exec: "list_all is_exec (new_events s (snd (delete_item h w x s)))"
  by (simp add: delete_item_events split: option.splits)

lemma create_item_trace:
  "trace (snd (create_item h w x s)) = trace s @
     FsCreateDirectory (resolve h (cwd h) x) #
     (case fs_createDirectory w (trace s) (resolve h (cwd h) x) of
        None \<Rightarrow> []
      | Some err \<Rightarrow>
          [ConsoleError (''Error creating directory '' @ x @ '': '' @ message_or err ''Unknown error''),
           HandleError (''creating directory '' @ x) err])"
  by (simp add: create_item_def Let_def split: option.splits)

lemmas create_item_extends = extendsI [OF create_item_trace]
lemmas create_item_events = new_eventsI [OF create_item_trace]


lemma create_item_exec: "list_all is_exec (new_events s (snd (create_item h w x s)))"
  by (simp add: create_item_events split: option.splits)

lemma grows_refl: "grows Q s s"
  by (simp add: grows_def)

lemma grows_emit: "grows Q s s1 \<Longrightarrow> Q e \<Longrightarrow> grows Q s (emit e s1)"
  by (simp add: grows_def extends_emit_after new_events_emit)

lemma grows_extends: "grows Q s s' \<Longrightarrow> extends s s'"
  by (simp add: grows_def)

lemma grows_all: "grows Q s s' \<Longrightarrow> list_all Q (new_events s s')"
  by (simp add: grows_def)

lemma grows_didEditFile [simp]: "grows Q s (s1\<lparr>didEditFile := v\<rparr>) = grows Q s s1"
  by (simp add: grows_def extends_def new_events_def)

lemma grows_trans:
  assumes "grows Q s s1" and "grows Q s1 s2"
  shows "grows Q s s2"
proof -
  have e: "extends s s1" "extends s1 s2"
    using assms by (simp_all add: grows_def)
  have "new_events s s2 = new_events s s1 @ new_events s1 s2"
    by (rule new_events_trans [OF e])
  moreover have "extends s s2"
    by (rule extends_trans [OF e])
  ultimately show ?thesis
    using assms by (simp add: grows_def)
qed

lemma validateAccess_grows: "grows is_exec s (snd (validateAccess w x s))"
  by (simp add: validateAccess_def Let_def grows_refl grows_emit split: option.splits)



lemma growsI: "trace s' = trace s @ evs \<Longrightarrow> list_all Q evs \<Longrightarrow> grows Q s s'"
  by (simp add: grows_def extendsI new_eventsI)


lemma write_failed_trace:
  "trace (snd (write_failed p err s)) = trace s @
     [ConsoleError (''Error writing file '' @ p @ '': '' @ message_or err ''Unknown error''),
      HandleError (''writing file '' @ p) err]"
  by (simp add: write_failed_def Let_def)

lemma write_item_trace:
  "trace (snd (write_item h w item s)) = trace s @
     (let absolutePath = resolve h (cwd h) (wi_path item);
          dir = dirname h absolutePath;
          needsDir = (dir \<noteq> absolutePath \<and> dir \<noteq> cwd h \<and> dir \<noteq> ''.'');
          failure = (\<lambda>err. [ConsoleError (''Error writing file '' @ wi_path item @ '': ''
                                           @ message_or err ''Unknown error''),
                             HandleError (''writing file '' @ wi_path item) err])
      in (if needsDir then [FsCreateDirectory dir] else [])
         @ (case (if needsDir then fs_createDirectory w (trace s) dir else None) of
              Some err \<Rightarrow> failure err
            | None \<Rightarrow>
                FsWriteFile absolutePath (encode (wi_content item))
                # (case fs_writeFile w
                          (trace s @ (if needsDir then [FsCreateDirectory dir] else []))
                          absolutePath (encode (wi_content item)) of
                     Some err \<Rightarrow> failure err
                   | None \<Rightarrow> [])))"
  by (simp add: write_item_def write_failed_trace Let_def split: option.splits)

lemma write_item_grows: "grows is_exec s (snd (write_item h w item s))"
  by (rule growsI [OF write_item_trace]) (simp add: Let_def split: option.splits)

lemmas write_item_extends = grows_extends [OF write_item_grows]
lemmas write_item_exec = grows_all [OF write_item_grows]



lemma list_failed_trace:
  "trace (snd (list_failed a x err s)) = trace s @
     [ConsoleError (''Error listing directory '' @ a @ '':''),
      HandleError (''listing directory '' @ x) err]"
  by (simp add: list_failed_def Let_def)

lemma list_item_trace:
  "trace (snd (list_item h w r sh x s)) = trace s @
     (let absolutePath = resolve h (cwd h) x;
          checked = (case rooIgnoreController w of
                       None \<Rightarrow> []
                     | Some f \<Rightarrow> [ValidateAccess x (f (trace s) x)]);
          ok = (case rooIgnoreController w of None \<Rightarrow> True | Some f \<Rightarrow> f (trace s) x);
          failure = (\<lambda>err. [ConsoleError (''Error listing directory '' @ absolutePath @ '':''),
                             HandleError (''listing directory '' @ x) err])
      in checked
         @ (if \<not> ok then failure (ignored_error h x)
            else ListFiles absolutePath r 200
                 # (case listFiles w (trace s @ checked) absolutePath r 200 of
                      Inl err \<Rightarrow> failure err
                    | Inr _ \<Rightarrow> [])))"
  by (simp add: list_item_def list_failed_trace validateAccess_def Let_def
           split: option.splits sum.splits prod.splits)

lemma list_item_grows: "grows is_exec s (snd (list_item h w r sh x s))"
  by (rule growsI [OF list_item_trace]) (simp add: Let_def split: option.splits sum.splits)

lemmas list_item_extends = grows_extends [OF list_item_grows]
lemmas list_item_exec = grows_all [OF list_item_grows]



lemma read_failed_trace:
  "trace (snd (read_failed a x err s)) = trace s @ [ConsoleError (''Error reading file '' @ a @ '':'')]"
  by (simp add: read_failed_def Let_def)

lemma read_failed_grows: "grows is_exec s (snd (read_failed a x err s))"
  by (rule growsI [OF read_failed_trace]) simp

lemma count_lines_grows: "grows is_exec s (snd (count_lines w a s))"
  by (simp add: count_lines_def Let_def grows_refl grows_emit split: sum.splits)

lemma detect_binary_grows: "grows is_exec s (snd (detect_binary w a s))"
  by (simp add: detect_binary_def grows_refl grows_emit)

lemma read_range_grows: "grows is_exec s (snd (read_range h w a b p x n s))"
proof -
  have g: "grows is_exec s (emit (ReadLines p b a) s)"
    by (simp add: grows_refl grows_emit)
  have "\<And>err. grows is_exec s (snd (read_failed p x err (emit (ReadLines p b a) s)))"
    by (rule grows_trans [OF g read_failed_grows])
  with g show ?thesis
    by (simp add: read_range_def Let_def split: sum.splits)
qed

lemma read_whole_grows: "grows is_exec s (snd (read_whole w p x n s))"
proof -
  have g: "grows is_exec s (emit (ExtractTextFromFile p) s)"
    by (simp add: grows_refl grows_emit)
  have "\<And>err. grows is_exec s (snd (read_failed p x err (emit (ExtractTextFromFile p) s)))"
    by (rule grows_trans [OF g read_failed_grows])
  with g show ?thesis
    by (simp add: read_whole_def Let_def split: sum.splits)
qed

lemma read_truncated_grows: "grows is_exec s (snd (read_truncated h w m p x n s))"
proof -
  let ?s5 = "if m > 0 then emit (ReadLines p (Some (m - 1)) (Some 0)) s else s"
  let ?s6 = "emit (ParseSourceCodeDefinitionsForFile p) ?s5"
  have "grows is_exec s ?s5"
    by (simp add: grows_refl grows_emit)
  then have g: "grows is_exec s ?s6"
    by (rule grows_emit) simp
  have f: "\<And>err. grows is_exec s (snd (read_failed p x err ?s6))"
    by (rule grows_trans [OF g read_failed_grows])
  show ?thesis
    unfolding read_truncated_def Let_def
    using g f by (cases "0 < m") (simp_all split: sum.splits)
qed

lemma read_item_grows: "grows is_exec s (snd (read_item h w rr a b m x s))"
proof -
  let ?abs = "resolve h (cwd h) x"
  obtain ok s1 where va: "validateAccess w x s = (ok, s1)"
    by (cases "validateAccess w x s")
  obtain n s3 where cl: "count_lines w ?abs s1 = (n, s3)"
    by (cases "count_lines w ?abs s1")
  obtain bin s4 where db: "detect_binary w ?abs s3 = (bin, s4)"
    by (cases "detect_binary w ?abs s3")
  have g1: "grows is_exec s s1"
    using validateAccess_grows [of s w x] by (simp add: va)
  have g3: "grows is_exec s s3"
    using grows_trans [OF g1 count_lines_grows [of s1 w ?abs]] by (simp add: cl)
  have g4: "grows is_exec s s4"
    using grows_trans [OF g3 detect_binary_grows [of s3 w ?abs]] by (simp add: db)
  show ?thesis
    by (simp add: read_item_def va cl db Let_def
          grows_trans [OF g1 read_failed_grows] grows_trans [OF g4 read_range_grows]
          grows_trans [OF g4 read_truncated_grows] grows_trans [OF g4 read_whole_grows])
qed

lemmas read_item_extends = grows_extends [OF read_item_grows]
lemmas read_item_exec = grows_all [OF read_item_grows]


subsection \<open>Rejections\<close>

lemma missing_paths_events:
  "new_events s (missing_paths w toolName msg s) =
     [SayAndCreateMissingParamError toolName ''paths'' msg,
      PushToolResult (missingParamError w toolName ''paths'' msg)]"
  by (rule new_eventsI) (simp add: missing_paths_def)

lemma no_valid_paths_events:
  "new_events s (no_valid_paths h s) =
     [Say ''error'' ''The 'paths' parameter array contains only invalid or empty paths.'',
      PushToolResult (toolError h ''Invalid 'paths' parameter: No valid paths provided.'')]"
  by (rule new_eventsI) (simp add: no_valid_paths_def)

lemma reject_ignored_events:
  "new_events s1 (reject_ignored h ds s1) =
     [Say ''rooignore_error'' (rooIgnoreError h (join '', '' ds)),
      PushToolResult (toolError h (rooIgnoreError h (join '', '' ds)))]"
  by (rule new_eventsI) (simp add: reject_ignored_def Let_def)

lemma delete_reject_ignored_events:
  "new_events s1 (delete_reject_ignored h ds s1) =
     [Say ''rooignore_error''
        (rooIgnoreError h (''Deletion prevented for ignored path(s): '' @ join '', '' ds)),
      PushToolResult (toolError h
        (rooIgnoreError h (''Deletion prevented for ignored path(s): '' @ join '', '' ds)))]"
  by (rule new_eventsI) (simp add: delete_reject_ignored_def Let_def)

lemma new_events_after:
  "extends s s1 \<Longrightarrow> new_events s1 s2 = evs \<Longrightarrow> extends s1 s2
     \<Longrightarrow> new_events s s2 = new_events s s1 @ evs"
  using new_events_trans by blast

lemma extends_by_events: "trace s2 = trace s1 @ evs \<Longrightarrow> extends s1 s2"
  by (rule extendsI)

lemma reject_ignored_extends: "extends s1 (reject_ignored h ds s1)"
  by (rule extendsI) (simp add: reject_ignored_def Let_def)

lemma delete_reject_ignored_extends: "extends s1 (delete_reject_ignored h ds s1)"
  by (rule extendsI) (simp add: delete_reject_ignored_def Let_def)

subsection \<open>deleteItemsTool, phase by phase\<close>

lemma delete_loop_extends: "extends s (snd (run_items (delete_item h w) xs s))"
  by (rule run_items_extends [OF delete_item_extends])

lemma delete_loop_exec: "list_all is_exec (new_events s (snd (run_items (delete_item h w) xs s)))"
  by (rule run_items_all [OF delete_item_extends delete_item_exec])


lemma delete_loop_deletes:
  "filter is_delete (new_events s (snd (run_items (delete_item h w) xs s)))
     = map (\<lambda>x. FsDelete (resolve h (cwd h) x) True False) xs"
proof -
  have "map (\<lambda>e. e) (filter is_delete (new_events s (snd (run_items (delete_item h w) xs s))))
          = concat (map (\<lambda>x. [FsDelete (resolve h (cwd h) x) True False]) xs)"
    by (rule run_items_events [OF delete_item_extends])
       (simp add: delete_item_events split: option.splits)
  then show ?thesis by (simp add: concat_map_singleton)
qed

lemma delete_execute_outcome:
  "fst (delete_execute h w xs s3) = Completed (fst (run_items (delete_item h w) xs s3))"
  by (simp add: delete_execute_def case_prod_beta)

lemma delete_execute_events:
  "new_events s3 (snd (delete_execute h w xs s3)) =
     new_events s3 (snd (run_items (delete_item h w) xs s3))
     @ [Say ''text'' (delete_summary (fst (run_items (delete_item h w) xs s3))),
        PushToolResult (status_report ''deletion_results'' ''item''
                          (fst (run_items (delete_item h w) xs s3)))]"
  by (rule new_eventsI)
     (simp add: delete_execute_def case_prod_beta extends_append [OF delete_loop_extends, symmetric])

lemma delete_execute_extends: "extends s3 (snd (delete_execute h w xs s3))"
  by (simp add: delete_execute_def case_prod_beta extends_emit_after delete_loop_extends)

lemma deleteItemsTool_outcome:
  "fst (deleteItemsTool h w b s) =
     (let xs = filter_paths (array_items (params_paths b));
          checked = run_items (check_path h w) xs s
      in if \<not> nonempty_array (params_paths b) \<or> xs = []
            \<or> disallowed pe_readablePath (fst checked) \<noteq> [] then Rejected
         else fst (gate w b (delete_approval xs (fst checked)) (delete_execute h w xs) (snd checked)))"
  by (simp add: deleteItemsTool_def Let_def case_prod_beta)

lemma deleteItemsTool_events:
  "new_events s (snd (deleteItemsTool h w b s)) =
     (let xs = filter_paths (array_items (params_paths b));
          checked = run_items (check_path h w) xs s;
          ds = disallowed pe_readablePath (fst checked)
      in if \<not> nonempty_array (params_paths b) then
           new_events s (missing_paths w ''delete_items''
             ''Expected a non-empty array of file or directory paths to delete.'' s)
         else if xs = [] then new_events s (no_valid_paths h s)
         else new_events s (snd checked)
              @ (if ds \<noteq> [] then new_events (snd checked) (delete_reject_ignored h ds (snd checked))
                 else new_events (snd checked)
                        (snd (gate w b (delete_approval xs (fst checked))
                                (delete_execute h w xs) (snd checked)))))"
proof -
  let ?xs = "filter_paths (array_items (params_paths b))"
  let ?c = "run_items (check_path h w) ?xs s"
  have 1: "\<And>ds. new_events s (delete_reject_ignored h ds (snd ?c))
             = new_events s (snd ?c) @ new_events (snd ?c) (delete_reject_ignored h ds (snd ?c))"
    by (rule new_events_trans [OF check_loop_extends delete_reject_ignored_extends])
  have 2: "\<And>a. new_events s (snd (gate w b a (delete_execute h w ?xs) (snd ?c)))
             = new_events s (snd ?c)
               @ new_events (snd ?c) (snd (gate w b a (delete_execute h w ?xs) (snd ?c)))"
    by (rule new_events_trans [OF check_loop_extends gate_extends [OF delete_execute_extends]])
  show ?thesis
    by (simp add: deleteItemsTool_def Let_def case_prod_beta 1 2)
qed

section \<open>The claims\<close>

text \<open>
  C6. In the delete tool, an item whose deletion fails with the code \<open>FileNotFound\<close> gets
  the status \<open>error\<close> with the exact message "File or directory not found." and
  \<open>handleError\<close> is not called for it; an item whose deletion fails in any other way gets
  the status \<open>error\<close>, \<open>handleError\<close> is called once for it with that error, and the
  result records the error's message (the text "Unknown error" when the error carries none).
\<close>

theorem delete_not_found_is_benign:
  assumes "fs_delete w (trace s) (resolve h (cwd h) relPath) True False = Some err"
  shows "(err_code err = Some ''FileNotFound'' \<longrightarrow>
            fst (delete_item h w relPath s)
              = \<lparr>sr_path = relPath, sr_status = Error,
                 sr_error = Some ''File or directory not found.''\<rparr>
            \<and> filter is_handle_error (new_events s (snd (delete_item h w relPath s))) = [])
       \<and> (err_code err \<noteq> Some ''FileNotFound'' \<longrightarrow>
            fst (delete_item h w relPath s)
              = \<lparr>sr_path = relPath, sr_status = Error,
                 sr_error = Some (message_or err ''Unknown error'')\<rparr>
            \<and> filter is_handle_error (new_events s (snd (delete_item h w relPath s)))
                = [HandleError (''deleting '' @ relPath) err]
            \<and> (\<forall>m. err_message err = Some m \<and> m \<noteq> []
                   \<longrightarrow> sr_error (fst (delete_item h w relPath s)) = Some m))"
  using assms
  by (simp add: delete_item_events) (simp add: delete_item_def Let_def message_or_def)

theorem delete_not_found_is_benign_witness:
  "fst (delete_item ex_helpers (ex_world None True (fails_on_A not_found) None) ''A'' ex_state)
     = \<lparr>sr_path = ''A'', sr_status = Error, sr_error = Some ''File or directory not found.''\<rparr>
   \<and> filter is_handle_error
        (new_events ex_state
           (snd (delete_item ex_helpers (ex_world None True (fails_on_A not_found) None) ''A'' ex_state)))
      = []
   \<and> fst (delete_item ex_helpers (ex_world None True (fails_on_A permission_denied) None) ''A'' ex_state)
     = \<lparr>sr_path = ''A'', sr_status = Error, sr_error = Some ''Permission denied''\<rparr>
   \<and> filter is_handle_error
        (new_events ex_state
           (snd (delete_item ex_helpers (ex_world None True (fails_on_A permission_denied) None) ''A'' ex_state)))
      = [HandleError ''deleting A'' permission_denied]"
proof -
  have 1: "fs_delete (ex_world None True (fails_on_A not_found) None) (trace ex_state)
             (resolve ex_helpers (cwd ex_helpers) ''A'') True False = Some not_found"
    by (simp add: ex_world_def ex_helpers_def fails_on_A_def)
  have 2: "fs_delete (ex_world None True (fails_on_A permission_denied) None) (trace ex_state)
             (resolve ex_helpers (cwd ex_helpers) ''A'') True False = Some permission_denied"
    by (simp add: ex_world_def ex_helpers_def fails_on_A_def)
  show ?thesis
    using delete_not_found_is_benign [OF 1] delete_not_found_is_benign [OF 2]
    by (simp add: not_found_def permission_denied_def message_or_def)
qed

lemma deleteItemsTool_deletes:
  "filter is_delete (new_events s (snd (deleteItemsTool h w b s))) =
     (case fst (deleteItemsTool h w b s) of
        Completed rs \<Rightarrow> map (\<lambda>p. FsDelete (resolve h (cwd h) p) True False)
                          (filter_paths (array_items (params_paths b)))
      | _ \<Rightarrow> [])"
  by (simp add: deleteItemsTool_events deleteItemsTool_outcome Let_def
        missing_paths_events no_valid_paths_events delete_reject_ignored_events
        gate_events [OF delete_execute_extends] gate_outcome
        delete_execute_events delete_execute_outcome delete_loop_deletes
        probes_quiet(6) [OF check_loop_probe])

text \<open>
  C10. Every call of the underlying delete that the delete tool makes has recursive
  deletion on and the trash off, whatever the parameters of the invocation; a completed
  batch makes exactly one such call per path of the batch, in order.
\<close>

theorem delete_is_recursive_and_permanent:
  "(\<forall>e \<in> set (new_events s (snd (deleteItemsTool h w b s))).
      is_delete e \<longrightarrow> (\<exists>p. e = FsDelete p True False))
   \<and> (\<forall>rs. fst (deleteItemsTool h w b s) = Completed rs \<longrightarrow>
         filter is_delete (new_events s (snd (deleteItemsTool h w b s)))
           = map (\<lambda>p. FsDelete (resolve h (cwd h) p) True False)
               (filter_paths (array_items (params_paths b))))"
proof (intro conjI ballI impI allI)
  fix e
  assume "e \<in> set (new_events s (snd (deleteItemsTool h w b s)))" and "is_delete e"
  then have "e \<in> set (filter is_delete (new_events s (snd (deleteItemsTool h w b s))))"
    by simp
  then show "\<exists>p. e = FsDelete p True False"
    by (auto simp: deleteItemsTool_deletes split: outcome.splits)
next
  fix rs
  assume "fst (deleteItemsTool h w b s) = Completed rs"
  then show "filter is_delete (new_events s (snd (deleteItemsTool h w b s)))
           = map (\<lambda>p. FsDelete (resolve h (cwd h) p) True False)
               (filter_paths (array_items (params_paths b)))"
    by (simp add: deleteItemsTool_deletes)
qed

lemma ex_delete_dir:
  "deleteItemsTool ex_helpers (ex_world None True (\<lambda>p. None) None)
     (ex_block (Arr [Str ''dir''])) ex_state
   = (Completed [\<lparr>sr_path = ''dir'', sr_status = Success, sr_error = None\<rparr>],
      \<lparr>trace = [AskApproval (delete_approval [''dir'']
                   [\<lparr>pe_path = ''dir'', pe_readablePath = ''dir'',
                     pe_isOutsideWorkspace = False, pe_accessAllowed = True\<rparr>]) True,
                FsDelete ''/ws/dir'' True False,
                Say ''text'' ''Batch deletion completed. 1 item(s) deleted successfully.'',
                PushToolResult (status_report ''deletion_results'' ''item''
                   [\<lparr>sr_path = ''dir'', sr_status = Success, sr_error = None\<rparr>])],
       consecutiveMistakeCount = 0, didEditFile = True\<rparr>)"
  by (simp add: deleteItemsTool_def ex_helpers_def ex_world_def ex_block_def ex_state_def
        nonempty_array_def array_items_def filter_paths_def List.map_filter_def trim_def is_space_def
        check_path_def validateAccess_def disallowed_def gate_def delete_execute_def
        delete_item_def emit_def Let_def delete_summary_def successCount_def errorCount_def
        has_error_def show_nat.simps digit_char_def)

theorem delete_is_recursive_and_permanent_witness:
  "FsDelete ''/ws/dir'' True False
     \<in> set (new_events ex_state
              (snd (deleteItemsTool ex_helpers (ex_world None True (\<lambda>p. None) None)
                      (ex_block (Arr [Str ''dir''])) ex_state)))
   \<and> filter is_delete
        (new_events ex_state
           (snd (deleteItemsTool ex_helpers (ex_world None True (\<lambda>p. None) None)
                   (ex_block (Arr [Str ''dir''])) ex_state)))
      = [FsDelete ''/ws/dir'' True False]"
proof -
  let ?run = "deleteItemsTool ex_helpers (ex_world None True (\<lambda>p. None) None)
                (ex_block (Arr [Str ''dir''])) ex_state"
  have member: "FsDelete ''/ws/dir'' True False \<in> set (new_events ex_state (snd ?run))"
    unfolding ex_delete_dir by (simp add: new_events_def ex_state_def)
  have finished: "fst ?run = Completed [\<lparr>sr_path = ''dir'', sr_status = Success, sr_error = None\<rparr>]"
    unfolding ex_delete_dir by simp
  have paths: "filter_paths (array_items (params_paths (ex_block (Arr [Str ''dir''])))) = [''dir'']"
    by (simp add: ex_block_def array_items_def filter_paths_def List.map_filter_def trim_def
          is_space_def)
  have "filter is_delete (new_events ex_state (snd ?run))
          = map (\<lambda>p. FsDelete (resolve ex_helpers (cwd ex_helpers) p) True False) [''dir'']"
    using delete_is_recursive_and_permanent
            [of ex_state ex_helpers "ex_world None True (\<lambda>p. None) None"
                "ex_block (Arr [Str ''dir''])"]
          finished paths
    by simp
  with member show ?thesis
    by (simp add: ex_helpers_def)
qed

subsection \<open>createDirectoriesTool, phase by phase\<close>

lemma create_loop_extends: "extends s (snd (run_items (create_item h w) xs s))"
  by (rule run_items_extends [OF create_item_extends])

lemma create_loop_exec: "list_all is_exec (new_events s (snd (run_items (create_item h w) xs s)))"
  by (rule run_items_all [OF create_item_extends create_item_exec])




lemma create_execute_events:
  "new_events s3 (snd (create_execute h w xs s3)) =
     new_events s3 (snd (run_items (create_item h w) xs s3))
     @ [Say ''text'' (create_summary (fst (run_items (create_item h w) xs s3))),
        PushToolResult (status_report ''creation_results'' ''directory''
                          (fst (run_items (create_item h w) xs s3)))]"
  by (rule new_eventsI)
     (simp add: create_execute_def case_prod_beta extends_append [OF create_loop_extends, symmetric])

lemma create_execute_extends: "extends s3 (snd (create_execute h w xs s3))"
  by (simp add: create_execute_def case_prod_beta extends_emit_after create_loop_extends)


lemma createDirectoriesTool_events:
  "new_events s (snd (createDirectoriesTool h w b s)) =
     (let xs = filter_paths (array_items (params_paths b))
      in if \<not> nonempty_array (params_paths b) then
           new_events s (missing_paths w ''create_directories''
             ''Expected a non-empty array of directory paths.'' s)
         else if xs = [] then new_events s (no_valid_paths h s)
         else new_events s (snd (gate w b (create_approval h xs) (create_execute h w xs) s)))"
  by (simp add: createDirectoriesTool_def Let_def)

subsection \<open>listDirectoriesTool, phase by phase\<close>

lemma list_loop_extends: "extends s (snd (run_items (list_item h w r sh) xs s))"
  by (rule run_items_extends [OF list_item_extends])

lemma list_loop_exec:
  "list_all is_exec (new_events s (snd (run_items (list_item h w r sh) xs s)))"
  by (rule run_items_all [OF list_item_extends list_item_exec])



lemma list_execute_events:
  "new_events s3 (snd (list_execute h w r xs s3)) =
     GetState
     # new_events (emit GetState s3)
         (snd (run_items (list_item h w r (list_showIgnored w s3)) xs (emit GetState s3)))
     @ [PushToolResult (list_report
          (fst (run_items (list_item h w r (list_showIgnored w s3)) xs (emit GetState s3))))]"
  by (rule new_eventsI)
     (simp add: list_execute_def Let_def case_prod_beta
        extends_append [OF list_loop_extends])

lemma list_execute_extends: "extends s3 (snd (list_execute h w r xs s3))"
proof -
  have "extends s3 (snd (run_items (list_item h w r (list_showIgnored w s3)) xs (emit GetState s3)))"
    by (rule extends_trans [OF extends_emit list_loop_extends])
  then show ?thesis
    by (simp add: list_execute_def Let_def case_prod_beta extends_emit_after)
qed


lemma listDirectoriesTool_events:
  "new_events s (snd (listDirectoriesTool h w b s)) =
     (let xs = filter_paths (array_items (params_paths b));
          checked = run_items (check_path h w) xs s;
          ds = disallowed pe_readablePath (fst checked)
      in if \<not> nonempty_array (params_paths b) then
           new_events s (missing_paths w ''list_directories''
             ''Expected a non-empty array of directory paths.'' s)
         else if xs = [] then new_events s (no_valid_paths h s)
         else new_events s (snd checked)
              @ (if ds \<noteq> [] then new_events (snd checked) (reject_ignored h ds (snd checked))
                 else new_events (snd checked)
                        (snd (gate w b (list_approval (list_recursive b) (fst checked))
                                (list_execute h w (list_recursive b) xs) (snd checked)))))"
proof -
  let ?xs = "filter_paths (array_items (params_paths b))"
  let ?c = "run_items (check_path h w) ?xs s"
  have 1: "\<And>ds. new_events s (reject_ignored h ds (snd ?c))
             = new_events s (snd ?c) @ new_events (snd ?c) (reject_ignored h ds (snd ?c))"
    by (rule new_events_trans [OF check_loop_extends reject_ignored_extends])
  have 2: "\<And>a r. new_events s (snd (gate w b a (list_execute h w r ?xs) (snd ?c)))
             = new_events s (snd ?c)
               @ new_events (snd ?c) (snd (gate w b a (list_execute h w r ?xs) (snd ?c)))"
    by (rule new_events_trans [OF check_loop_extends gate_extends [OF list_execute_extends]])
  show ?thesis
    by (simp add: listDirectoriesTool_def Let_def case_prod_beta 1 2)
qed

subsection \<open>readFilesTool, phase by phase\<close>

lemma read_loop_extends: "extends s (snd (run_items (read_item h w rr a b m) xs s))"
  by (rule run_items_extends [OF read_item_extends])

lemma read_loop_exec:
  "list_all is_exec (new_events s (snd (run_items (read_item h w rr a b m) xs s)))"
  by (rule run_items_all [OF read_item_extends read_item_exec])



lemma read_execute_events:
  "new_events s3 (snd (read_execute h w rr a b m xs s3)) =
     new_events s3 (snd (run_items (read_item h w rr a b m) xs s3))
     @ [PushToolResult (files_report m (fst (run_items (read_item h w rr a b m) xs s3)))]"
  by (rule new_eventsI)
     (simp add: read_execute_def case_prod_beta extends_append [OF read_loop_extends, symmetric])

lemma read_execute_extends: "extends s3 (snd (read_execute h w rr a b m xs s3))"
  by (simp add: read_execute_def case_prod_beta extends_emit_after read_loop_extends)

lemma reject_range_events:
  "new_events s (reject_range h said err s) = [Say ''error'' said, PushToolResult (toolError h err)]"
  by (rule new_eventsI) (simp add: reject_range_def)




lemma readFilesTool_events:
  "new_events s (snd (readFilesTool h w b s)) =
     (let xs = filter_paths (array_items (params_paths b)) in
      if \<not> nonempty_array (params_paths b) then
        new_events s (missing_paths w ''read_files'' ''Expected a non-empty array of file paths.'' s)
      else if xs = [] then new_events s (no_valid_paths h s)
      else case parse_line_range (params_start_line b) (params_end_line b) of
             Inl (said, err) \<Rightarrow> new_events s (reject_range h said err s)
           | Inr (rr, a, e) \<Rightarrow>
               (let m = configured_max (getState w (trace s));
                    checked = run_items (check_path h w) xs (emit GetState s);
                    ds = disallowed pe_readablePath (fst checked)
                in GetState # new_events (emit GetState s) (snd checked)
                   @ (if ds \<noteq> [] then new_events (snd checked) (reject_ignored h ds (snd checked))
                      else new_events (snd checked)
                             (snd (gate w b (read_approval h (lineSnippet h a e m) (fst checked))
                                     (read_execute h w rr a e m xs) (snd checked))))))"
proof -
  let ?xs = "filter_paths (array_items (params_paths b))"
  let ?s0 = "emit GetState s"
  let ?c = "run_items (check_path h w) ?xs ?s0"
  have "new_events s (snd ?c) = new_events s ?s0 @ new_events ?s0 (snd ?c)"
    by (rule new_events_trans [OF extends_emit check_loop_extends])
  moreover have "new_events s ?s0 = [GetState]"
    by (rule new_eventsI) simp
  ultimately have 0: "new_events s (snd ?c) = GetState # new_events ?s0 (snd ?c)"
    by simp
  have e0: "extends s (snd ?c)"
    by (rule extends_trans [OF extends_emit check_loop_extends])
  have 1: "\<And>ds. new_events s (reject_ignored h ds (snd ?c))
             = new_events s (snd ?c) @ new_events (snd ?c) (reject_ignored h ds (snd ?c))"
    by (rule new_events_trans [OF e0 reject_ignored_extends])
  have 2: "\<And>ap rr a e m. new_events s (snd (gate w b ap (read_execute h w rr a e m ?xs) (snd ?c)))
             = new_events s (snd ?c)
               @ new_events (snd ?c) (snd (gate w b ap (read_execute h w rr a e m ?xs) (snd ?c)))"
    by (rule new_events_trans [OF e0 gate_extends [OF read_execute_extends]])
  show ?thesis
    by (simp add: readFilesTool_def Let_def case_prod_beta 0 1 2 split: sum.splits prod.splits)
qed

subsection \<open>writeFilesTool, phase by phase\<close>

lemma write_loop_extends: "extends s (snd (run_items (write_item h w) xs s))"
  by (rule run_items_extends [OF write_item_extends])

lemma write_loop_exec: "list_all is_exec (new_events s (snd (run_items (write_item h w) xs s)))"
  by (rule run_items_all [OF write_item_extends write_item_exec])


lemma write_execute_outcome:
  "fst (write_execute h w xs s4) = Completed (fst (run_items (write_item h w) xs s4))"
  by (simp add: write_execute_def case_prod_beta)

lemma write_execute_events:
  "new_events s4 (snd (write_execute h w xs s4)) =
     new_events s4 (snd (run_items (write_item h w) xs s4))
     @ [Say ''text'' (write_summary (fst (run_items (write_item h w) xs s4))),
        PushToolResult (status_report ''write_results'' ''file''
                          (fst (run_items (write_item h w) xs s4)))]"
  by (rule new_eventsI)
     (simp add: write_execute_def case_prod_beta extends_append [OF write_loop_extends, symmetric])

lemma write_execute_extends: "extends s4 (snd (write_execute h w xs s4))"
  by (simp add: write_execute_def case_prod_beta extends_emit_after write_loop_extends)

lemma write_checked_outcome:
  "fst (write_checked h w b xs s) =
     (let checked = run_items (check_path h w) (map wi_path xs) s;
          probed = run_items (file_status h w) xs (snd checked)
      in if disallowed pe_path (fst checked) \<noteq> [] then Rejected
         else fst (gate w b (write_approval (fst probed) (fst checked))
                     (write_execute h w xs) (snd probed)))"
  by (simp add: write_checked_def Let_def case_prod_beta)

lemma write_checked_events:
  "new_events s (snd (write_checked h w b xs s)) =
     (let checked = run_items (check_path h w) (map wi_path xs) s;
          probed = run_items (file_status h w) xs (snd checked);
          ds = disallowed pe_path (fst checked)
      in new_events s (snd checked)
         @ (if ds \<noteq> [] then new_events (snd checked) (reject_ignored h ds (snd checked))
            else new_events (snd checked) (snd probed)
                 @ new_events (snd probed)
                     (snd (gate w b (write_approval (fst probed) (fst checked))
                             (write_execute h w xs) (snd probed)))))"
proof -
  let ?c = "run_items (check_path h w) (map wi_path xs) s"
  let ?p = "run_items (file_status h w) xs (snd ?c)"
  have 1: "\<And>ds. new_events s (reject_ignored h ds (snd ?c))
             = new_events s (snd ?c) @ new_events (snd ?c) (reject_ignored h ds (snd ?c))"
    by (rule new_events_trans [OF check_loop_extends reject_ignored_extends])
  have ep: "extends (snd ?c) (snd ?p)"
    by (rule status_loop_extends)
  have 2: "\<And>ap. new_events (snd ?c) (snd (gate w b ap (write_execute h w xs) (snd ?p)))
             = new_events (snd ?c) (snd ?p)
               @ new_events (snd ?p) (snd (gate w b ap (write_execute h w xs) (snd ?p)))"
    by (rule new_events_trans [OF ep gate_extends [OF write_execute_extends]])
  have 3: "\<And>ap. new_events s (snd (gate w b ap (write_execute h w xs) (snd ?p)))
             = new_events s (snd ?c)
               @ new_events (snd ?c) (snd (gate w b ap (write_execute h w xs) (snd ?p)))"
    by (rule new_events_trans
          [OF check_loop_extends extends_trans [OF ep gate_extends [OF write_execute_extends]]])
  show ?thesis
    by (simp add: write_checked_def Let_def case_prod_beta 1 2 3)
qed

lemma missing_items_events:
  "new_events s (missing_items w s) =
     [SayAndCreateMissingParamError ''write_files'' ''items''
        ''Expected a non-empty array of {path, content} objects.'',
      PushToolResult (missingParamError w ''write_files'' ''items''
        ''Expected a non-empty array of {path, content} objects.'')]"
  by (rule new_eventsI) (simp add: missing_items_def)

lemma reject_items_events:
  "new_events s (reject_items h msg s) = [Say ''error'' msg, PushToolResult (toolError h msg)]"
  by (rule new_eventsI) (simp add: reject_items_def)

text \<open>Where the write tool ends: a rejection, an exception, or the checked part.\<close>

lemma writeFilesTool_cases:
  obtains (missing) "writeFilesTool h w b s = (Rejected, missing_items w s)"
    | (invalid) msg where "writeFilesTool h w b s = (Rejected, reject_items h msg s)"
    | (threw) "writeFilesTool h w b s = (Threw, s)"
    | (checked) xs where "xs \<noteq> []" "writeFilesTool h w b s = write_checked h w b xs s"
      "filter_valid (array_items (params_items b))
         (snd (validate_items 0 (array_items (params_items b)) [] []))
         (fst (validate_items 0 (array_items (params_items b)) [] [])) = Some xs"
proof (cases "nonempty_array (params_items b)")
  case False
  then show ?thesis
    using missing by (simp add: writeFilesTool_def)
next
  case True
  let ?in = "array_items (params_items b)"
  let ?v = "validate_items 0 ?in [] []"
  from True have len: "length ?in > 0"
    by (simp add: nonempty_array_def array_items_def split: jsval.splits)
  show ?thesis
  proof (cases "both_missing (snd ?v)")
    case True
    then show ?thesis
      using \<open>nonempty_array (params_items b)\<close> invalid
      by (simp add: writeFilesTool_def Let_def case_prod_beta)
  next
    case False
    show ?thesis
    proof (cases "filter_valid ?in (snd ?v) (fst ?v)")
      case None
      then show ?thesis
        using \<open>nonempty_array (params_items b)\<close> False threw
        by (simp add: writeFilesTool_def Let_def case_prod_beta)
    next
      case (Some xs)
      show ?thesis
      proof (cases "xs = []")
        case True
        then show ?thesis
          using \<open>nonempty_array (params_items b)\<close> False Some len invalid
          by (simp add: writeFilesTool_def Let_def case_prod_beta)
      next
        case nonempty: False
        then show ?thesis
          using \<open>nonempty_array (params_items b)\<close> False Some checked [of xs]
          by (simp add: writeFilesTool_def Let_def case_prod_beta)
      qed
    qed
  qed
qed

subsection \<open>A denial ends the invocation\<close>

lemma tool_events_simps:
  "tool_events ReadFiles h w b s = new_events s (snd (readFilesTool h w b s))"
  "tool_events WriteFiles h w b s = new_events s (snd (writeFilesTool h w b s))"
  "tool_events DeleteItems h w b s = new_events s (snd (deleteItemsTool h w b s))"
  "tool_events CreateDirectories h w b s = new_events s (snd (createDirectoriesTool h w b s))"
  "tool_events ListDirectories h w b s = new_events s (snd (listDirectoriesTool h w b s))"
  by (simp_all add: tool_events_def run_tool_def)

lemma gate_denied:
  assumes ext: "\<And>s3. extends s3 (snd (ex s3))"
    and nd: "\<And>s3. filter is_denial (new_events s3 (snd (ex s3))) = []"
    and "filter is_denial (new_events s1 (snd (gate w b a ex s1))) \<noteq> []"
  shows "new_events s1 (snd (gate w b a ex s1)) = [AskApproval a False]"
  using assms(3) by (simp add: gate_events [OF ext] nd split: if_splits)

lemma denied_after_probes:
  assumes ext: "\<And>s3. extends s3 (snd (ex s3))"
    and nd: "\<And>s3. filter is_denial (new_events s3 (snd (ex s3))) = []"
    and pre: "list_all is_probe pre"
    and "filter is_denial (pre @ new_events s1 (snd (gate w b a ex s1))) \<noteq> []"
  shows "quiet (pre @ new_events s1 (snd (gate w b a ex s1)))"
proof -
  from assms(4) have "filter is_denial (new_events s1 (snd (gate w b a ex s1))) \<noteq> []"
    by (simp add: probes_quiet(4) [OF pre])
  then have "new_events s1 (snd (gate w b a ex s1)) = [AskApproval a False]"
    by (rule gate_denied [OF ext nd])
  then show ?thesis
    by (simp add: quiet_def probes_quiet [OF pre])
qed

lemma delete_execute_no_denial:
  "filter is_denial (new_events s3 (snd (delete_execute h w xs s3))) = []"
  by (simp add: delete_execute_events exec_quiet(3) [OF delete_loop_exec])

lemma create_execute_no_denial:
  "filter is_denial (new_events s3 (snd (create_execute h w xs s3))) = []"
  by (simp add: create_execute_events exec_quiet(3) [OF create_loop_exec])

lemma list_execute_no_denial:
  "filter is_denial (new_events s3 (snd (list_execute h w r xs s3))) = []"
  by (simp add: list_execute_events exec_quiet(3) [OF list_loop_exec])

lemma read_execute_no_denial:
  "filter is_denial (new_events s3 (snd (read_execute h w rr a b m xs s3))) = []"
  by (simp add: read_execute_events exec_quiet(3) [OF read_loop_exec])

lemma write_execute_no_denial:
  "filter is_denial (new_events s3 (snd (write_execute h w xs s3))) = []"
  by (simp add: write_execute_events exec_quiet(3) [OF write_loop_exec])

lemma delete_denied_quiet:
  assumes "filter is_denial (new_events s (snd (deleteItemsTool h w b s))) \<noteq> []"
  shows "quiet (new_events s (snd (deleteItemsTool h w b s)))"
proof -
  note d = denied_after_probes [OF delete_execute_extends delete_execute_no_denial check_loop_probe]
  from assms show ?thesis
    by (simp add: deleteItemsTool_events Let_def missing_paths_events no_valid_paths_events
          delete_reject_ignored_events probes_quiet(4) [OF check_loop_probe] d
          split: if_splits)
qed

lemma create_denied_quiet:
  assumes "filter is_denial (new_events s (snd (createDirectoriesTool h w b s))) \<noteq> []"
  shows "quiet (new_events s (snd (createDirectoriesTool h w b s)))"
proof -
  have d: "\<And>a xs. filter is_denial ([] @ new_events s (snd (gate w b a (create_execute h w xs) s))) \<noteq> []
             \<Longrightarrow> quiet ([] @ new_events s (snd (gate w b a (create_execute h w xs) s)))"
    by (rule denied_after_probes [OF create_execute_extends create_execute_no_denial]) simp
  from assms show ?thesis
    using d
    by (simp add: createDirectoriesTool_events Let_def missing_paths_events no_valid_paths_events
          split: if_splits)
qed

lemma list_denied_quiet:
  assumes "filter is_denial (new_events s (snd (listDirectoriesTool h w b s))) \<noteq> []"
  shows "quiet (new_events s (snd (listDirectoriesTool h w b s)))"
proof -
  note d = denied_after_probes [OF list_execute_extends list_execute_no_denial check_loop_probe]
  from assms show ?thesis
    by (simp add: listDirectoriesTool_events Let_def missing_paths_events no_valid_paths_events
          reject_ignored_events probes_quiet(4) [OF check_loop_probe] d
          split: if_splits)
qed

lemma read_denied_quiet:
  assumes "filter is_denial (new_events s (snd (readFilesTool h w b s))) \<noteq> []"
  shows "quiet (new_events s (snd (readFilesTool h w b s)))"
proof -
  have p: "\<And>xs. list_all is_probe
             (GetState # new_events (emit GetState s) (snd (run_items (check_path h w) xs (emit GetState s))))"
    by (simp add: check_loop_probe)
  note d = denied_after_probes [OF read_execute_extends read_execute_no_denial p]
  from assms show ?thesis
    using d
    by (simp add: readFilesTool_events Let_def missing_paths_events no_valid_paths_events
          reject_range_events reject_ignored_events probes_quiet(4) [OF check_loop_probe]
          split: if_splits sum.splits prod.splits)
qed

lemma write_denied_quiet:
  assumes "filter is_denial (new_events s (snd (writeFilesTool h w b s))) \<noteq> []"
  shows "quiet (new_events s (snd (writeFilesTool h w b s)))"
proof (cases rule: writeFilesTool_cases [of h w b s])
  case missing
  with assms show ?thesis by (simp add: missing_items_events)
next
  case (invalid msg)
  with assms show ?thesis by (simp add: reject_items_events)
next
  case threw
  with assms show ?thesis by simp
next
  case (checked xs)
  let ?c = "run_items (check_path h w) (map wi_path xs) s"
  let ?p = "run_items (file_status h w) xs (snd ?c)"
  have p: "list_all is_probe (new_events s (snd ?c) @ new_events (snd ?c) (snd ?p))"
    by (simp add: check_loop_probe status_loop_probe)
  note d = denied_after_probes [OF write_execute_extends write_execute_no_denial p]
  from assms checked(2) show ?thesis
    using d
    by (simp add: write_checked_events Let_def reject_ignored_events
          probes_quiet(4) [OF check_loop_probe] split: if_splits)
qed


text \<open>
  C3. In a finalized invocation of any of the five tools, when the approval request is
  answered with no, the invocation performs none of the per-item operations, calls
  \<open>handleError\<close> for nothing and pushes no tool result. (The write tool has by then asked
  whether each target exists; that probe precedes the request and changes nothing.)
\<close>

theorem denial_has_no_side_effect:
  assumes "AskApproval a False \<in> set (tool_events t h w b s)"
  shows "filter is_item_op (tool_events t h w b s) = []
       \<and> filter is_report (tool_events t h w b s) = []
       \<and> filter is_handle_error (tool_events t h w b s) = []"
proof -
  from assms have "AskApproval a False \<in> set (filter is_denial (tool_events t h w b s))"
    by simp
  then have denied: "filter is_denial (tool_events t h w b s) \<noteq> []"
    by force
  have "quiet (tool_events t h w b s)"
  proof (cases t)
    case ReadFiles
    with denied show ?thesis by (simp add: tool_events_simps read_denied_quiet)
  next
    case WriteFiles
    with denied show ?thesis by (simp add: tool_events_simps write_denied_quiet)
  next
    case DeleteItems
    with denied show ?thesis by (simp add: tool_events_simps delete_denied_quiet)
  next
    case CreateDirectories
    with denied show ?thesis by (simp add: tool_events_simps create_denied_quiet)
  next
    case ListDirectories
    with denied show ?thesis by (simp add: tool_events_simps list_denied_quiet)
  qed
  then show ?thesis
    by (simp add: quiet_def)
qed

lemma ex_write_denied:
  "writeFilesTool ex_helpers (ex_world None False no_failure None)
     (ex_items (Arr [Obj [(''path'', Str ''x.txt''), (''content'', Str [])]])) ex_state
   = (Denied,
      \<lparr>trace = [FileExistsAtPath ''/ws/x.txt'',
                AskApproval (write_approval [(''x.txt'', False)]
                   [\<lparr>pe_path = ''x.txt'', pe_readablePath = ''x.txt'',
                     pe_isOutsideWorkspace = False, pe_accessAllowed = True\<rparr>]) False],
       consecutiveMistakeCount = 0, didEditFile = False\<rparr>)"
  by (simp add: writeFilesTool_def write_checked_def ex_helpers_def ex_world_def ex_items_def
        ex_state_def nonempty_array_def array_items_def validate_item_def is_object_def
        path_ok_def get_prop_def is_str_def str_of_def trim_def is_space_def both_missing_def
        keeps_def disallowed_def check_path_def validateAccess_def file_status_def gate_def
        emit_def Let_def)

theorem denial_has_no_side_effect_witness:
  "AskApproval (write_approval [(''x.txt'', False)]
       [\<lparr>pe_path = ''x.txt'', pe_readablePath = ''x.txt'',
         pe_isOutsideWorkspace = False, pe_accessAllowed = True\<rparr>]) False
     \<in> set (tool_events WriteFiles ex_helpers (ex_world None False no_failure None)
              (ex_items (Arr [Obj [(''path'', Str ''x.txt''), (''content'', Str [])]])) ex_state)
   \<and> filter is_item_op
        (tool_events WriteFiles ex_helpers (ex_world None False no_failure None)
           (ex_items (Arr [Obj [(''path'', Str ''x.txt''), (''content'', Str [])]])) ex_state) = []
   \<and> filter is_report
        (tool_events WriteFiles ex_helpers (ex_world None False no_failure None)
           (ex_items (Arr [Obj [(''path'', Str ''x.txt''), (''content'', Str [])]])) ex_state) = []
   \<and> filter is_handle_error
        (tool_events WriteFiles ex_helpers (ex_world None False no_failure None)
           (ex_items (Arr [Obj [(''path'', Str ''x.txt''), (''content'', Str [])]])) ex_state) = []"
proof -
  let ?a = "write_approval [(''x.txt'', False)]
       [\<lparr>pe_path = ''x.txt'', pe_readablePath = ''x.txt'',
         pe_isOutsideWorkspace = False, pe_accessAllowed = True\<rparr>]"
  have asked: "AskApproval ?a False
      \<in> set (tool_events WriteFiles ex_helpers (ex_world None False no_failure None)
              (ex_items (Arr [Obj [(''path'', Str ''x.txt''), (''content'', Str [])]])) ex_state)"
    unfolding tool_events_simps ex_write_denied by (simp add: new_events_def ex_state_def)
  show ?thesis
    using asked denial_has_no_side_effect [OF asked] by simp
qed

subsection \<open>The line range of a read\<close>





text \<open>
  C7 as stated fails: with \<open>start_line = 1\<close> and \<open>end_line = 0\<close> both bounds parse as
  integers and the start is the greater one, yet the batch is accepted, approval is asked
  and the file is read.
\<close>

lemma ex_helpers_simps [simp]:
  "cwd ex_helpers = ''/ws''"
  "resolve ex_helpers dir p = dir @ ''/'' @ p"
  "dirname ex_helpers = ex_dirname"
  "getReadablePath ex_helpers dir p = p"
  "isPathOutsideWorkspace ex_helpers p = False"
  "rooIgnoreError ex_helpers p = ''Access to '' @ p @ '' is blocked by the .rooignore file settings.''"
  "toolError ex_helpers e = ''<error>'' @ e @ ''</error>''"
  "i18n_t ex_helpers key args = key"
  "addLineNumbers ex_helpers content start = content"
  "formatFilesList ex_helpers dir files didHitLimit showIgnored = join [CHR 0x0A] files"
  by (simp_all add: ex_helpers_def)

lemma ex_world_simps [simp]:
  "rooIgnoreController (ex_world c ans f st) = map_option (\<lambda>allowed tr p. allowed p) c"
  "askApproval (ex_world c ans f st) tr a = ans"
  "missingParamError (ex_world c ans f st) toolName param msg
     = ''Missing value for '' @ param @ ''. '' @ msg"
  "getState (ex_world c ans f st) tr = st"
  "fileExistsAtPath (ex_world c ans f st) tr p = False"
  "countFileLines (ex_world c ans f st) tr p = (case f p of Some err \<Rightarrow> Inl err | None \<Rightarrow> Inr 600)"
  "isBinaryFile (ex_world c ans f st) tr p = Inr False"
  "readLines (ex_world c ans f st) tr p e b
     = (case f p of Some err \<Rightarrow> Inl err | None \<Rightarrow> Inr ''first lines'')"
  "parseSourceCodeDefinitionsForFile (ex_world c ans f st) tr p = Inr (Some ''# outline'')"
  "extractTextFromFile (ex_world c ans f st) tr p
     = (case f p of Some err \<Rightarrow> Inl err | None \<Rightarrow> Inr ''whole file'')"
  "listFiles (ex_world c ans f st) tr p r n
     = (case f p of Some err \<Rightarrow> Inl err | None \<Rightarrow> Inr ([''a.txt''], False))"
  "fs_delete (ex_world c ans f st) tr p r u = f p"
  "fs_createDirectory (ex_world c ans f st) tr p = f p"
  "fs_writeFile (ex_world c ans f st) tr p content = f p"
  by (simp_all add: ex_world_def)

lemma ex_paths_A [simp]:
  "nonempty_array (Arr [Str ''A''])"
  "filter_paths (array_items (Arr [Str ''A''])) = [''A'']"
  by (simp_all add: nonempty_array_def array_items_def filter_paths_def List.map_filter_def
        trim_def is_space_def)





subsection \<open>A truncated read\<close>




subsection \<open>Writing one file\<close>

lemmas write_item_events = new_eventsI [OF write_item_trace]

lemma write_item_ok:
  assumes "\<forall>tr p. fs_createDirectory w tr p = None"
    and "\<forall>tr. fs_writeFile w tr (resolve h (cwd h) (wi_path item)) (encode (wi_content item)) = None"
  shows "fst (write_item h w item s)
           = \<lparr>sr_path = wi_path item, sr_status = Success, sr_error = None\<rparr>"
  using assms by (simp add: write_item_def Let_def)

lemma write_item_ok_events:
  assumes "\<forall>tr p. fs_createDirectory w tr p = None"
    and "\<forall>tr. fs_writeFile w tr (resolve h (cwd h) (wi_path item)) (encode (wi_content item)) = None"
  shows "filter is_write (new_events s (snd (write_item h w item s)))
           = [FsWriteFile (resolve h (cwd h) (wi_path item)) (encode (wi_content item))]"
    and "filter is_handle_error (new_events s (snd (write_item h w item s))) = []"
  using assms by (simp_all add: write_item_events Let_def)

lemma validate_one:
  assumes "is_object item" and "get_prop item ''path'' = Str p" and "trim p \<noteq> []"
    and "get_prop item ''content'' = Str c"
  shows "validate_items 0 [item] [] [] = ([\<lparr>wi_path = trim p, wi_content = c\<rparr>], [])"
  using assms by (simp add: validate_item_def path_ok_def is_str_def str_of_def Let_def)

lemma trim_x_txt: "trim ''x.txt'' = ''x.txt''"
  by (simp add: trim_def is_space_def)

text \<open>
  C9. In the write tool, the batch of the one item \<open>{path: "x.txt", content: ""}\<close> passes
  validation; once it is allowed and approved and the file system accepts the write, the
  tool makes exactly one call of \<open>writeFile\<close>, with a payload of length zero, calls
  \<open>handleError\<close> for nothing, and reports the item with the status \<open>success\<close>.
\<close>

theorem empty_content_is_written:
  assumes item: "params_items b = Arr [item]" "is_object item"
      "get_prop item ''path'' = Str ''x.txt''" "get_prop item ''content'' = Str []"
    and final: "\<not> partial b"
    and allowed: "\<forall>f. rooIgnoreController w = Some f \<longrightarrow> (\<forall>tr. f tr ''x.txt'')"
    and approved: "\<forall>tr a. askApproval w tr a"
    and mkdir: "\<forall>tr p. fs_createDirectory w tr p = None"
    and written: "\<forall>tr. fs_writeFile w tr (resolve h (cwd h) ''x.txt'') [] = None"
  shows "fst (writeFilesTool h w b s)
           = Completed [\<lparr>sr_path = ''x.txt'', sr_status = Success, sr_error = None\<rparr>]
       \<and> filter is_write (tool_events WriteFiles h w b s)
           = [FsWriteFile (resolve h (cwd h) ''x.txt'') []]
       \<and> filter is_handle_error (tool_events WriteFiles h w b s) = []
       \<and> filter is_report (tool_events WriteFiles h w b s)
           = [PushToolResult (status_report ''write_results'' ''file''
                [\<lparr>sr_path = ''x.txt'', sr_status = Success, sr_error = None\<rparr>])]"
proof -
  let ?it = "\<lparr>wi_path = ''x.txt'', wi_content = []\<rparr>"
  let ?c = "run_items (check_path h w) [''x.txt''] s"
  let ?p = "run_items (file_status h w) [?it] (snd ?c)"
  let ?a = "write_approval (fst ?p) (fst ?c)"
  let ?s3 = "approved_state ?a (snd ?p)"
  have v: "validate_items 0 [item] [] [] = ([?it], [])"
    using validate_one [OF item(2) item(3) _ item(4)] by (simp add: trim_x_txt)
  have run: "writeFilesTool h w b s = write_checked h w b [?it] s"
    by (simp add: writeFilesTool_def item(1) nonempty_array_def array_items_def v
          both_missing_def keeps_def Let_def del: validate_items.simps)
  have none: "denied_paths (new_events s (snd ?c)) = []"
  proof (cases "rooIgnoreController w")
    case None
    then show ?thesis by (rule denied_paths_none)
  next
    case (Some f)
    with allowed have "\<And>tr p. p \<in> set [''x.txt''] \<Longrightarrow> f tr p" by simp
    with Some show ?thesis by (rule denied_paths_allowed)
  qed
  then have ds: "disallowed pe_path (fst ?c) = []"
    by (simp only: check_loop_disallowed_path)
  have w1: "\<forall>tr. fs_writeFile w tr (resolve h (cwd h) (wi_path ?it)) (encode (wi_content ?it)) = None"
    using written by (simp add: encode_def)
  have it: "wi_path ?it = ''x.txt''" "encode (wi_content ?it) = []"
    by (simp_all add: encode_def)
  have one: "\<And>s3. run_items (write_item h w) [?it] s3
                = ([fst (write_item h w ?it s3)], snd (write_item h w ?it s3))"
    by (simp add: case_prod_beta)
  have res: "\<And>s3. fst (run_items (write_item h w) [?it] s3)
               = [\<lparr>sr_path = ''x.txt'', sr_status = Success, sr_error = None\<rparr>]"
    using write_item_ok [OF mkdir w1] by (simp only: one fst_conv it)
  have lw: "\<And>s3. filter is_write (new_events s3 (snd (run_items (write_item h w) [?it] s3)))
              = [FsWriteFile (resolve h (cwd h) ''x.txt'') []]"
    using write_item_ok_events(1) [OF mkdir w1] by (simp only: one snd_conv it)
  have lh: "\<And>s3. filter is_handle_error
                   (new_events s3 (snd (run_items (write_item h w) [?it] s3))) = []"
    using write_item_ok_events(2) [OF mkdir w1] by (simp only: one snd_conv)
  have lr: "\<And>s3. filter is_report (new_events s3 (snd (run_items (write_item h w) [?it] s3))) = []"
    by (rule exec_quiet(1) [OF write_loop_exec])
  have out: "fst (writeFilesTool h w b s)
               = Completed [\<lparr>sr_path = ''x.txt'', sr_status = Success, sr_error = None\<rparr>]"
    using final approved
    by (simp add: run write_checked_outcome Let_def ds gate_outcome write_execute_outcome res
          del: run_items.simps)
  have ev: "tool_events WriteFiles h w b s
              = new_events s (snd ?c) @ new_events (snd ?c) (snd ?p)
                @ AskApproval ?a True
                # new_events ?s3 (snd (run_items (write_item h w) [?it] ?s3))
                @ [Say ''text'' (write_summary (fst (run_items (write_item h w) [?it] ?s3))),
                   PushToolResult (status_report ''write_results'' ''file''
                      (fst (run_items (write_item h w) [?it] ?s3)))]"
    using final approved
    by (simp add: tool_events_simps run write_checked_events Let_def ds
          gate_events [OF write_execute_extends] write_execute_events del: run_items.simps)
  show ?thesis
    by (simp only: out ev filter_append filter.simps
          probes_quiet [OF check_loop_probe] probes_quiet [OF status_loop_probe] lw lh lr res)
       simp
qed

theorem empty_content_is_written_witness:
  "fst (writeFilesTool ex_helpers (ex_world None True no_failure None)
          (ex_items (Arr [Obj [(''path'', Str ''x.txt''), (''content'', Str [])]])) ex_state)
     = Completed [\<lparr>sr_path = ''x.txt'', sr_status = Success, sr_error = None\<rparr>]
   \<and> filter is_write
        (tool_events WriteFiles ex_helpers (ex_world None True no_failure None)
           (ex_items (Arr [Obj [(''path'', Str ''x.txt''), (''content'', Str [])]])) ex_state)
      = [FsWriteFile ''/ws/x.txt'' []]
   \<and> filter is_report
        (tool_events WriteFiles ex_helpers (ex_world None True no_failure None)
           (ex_items (Arr [Obj [(''path'', Str ''x.txt''), (''content'', Str [])]])) ex_state)
      = [PushToolResult
           (''<write_results>'' @ [CHR 0x0A] @ ''  <file>'' @ [CHR 0x0A]
            @ ''    <path>x.txt</path>'' @ [CHR 0x0A] @ ''    <status>success</status>'' @ [CHR 0x0A]
            @ ''  </file>'' @ [CHR 0x0A] @ ''</write_results>'')]"
proof -
  let ?w = "ex_world None True no_failure None"
  let ?item = "Obj [(''path'', Str ''x.txt''), (''content'', Str [])]"
  let ?b = "ex_items (Arr [?item])"
  have 1: "params_items ?b = Arr [?item]" "is_object ?item"
    "get_prop ?item ''path'' = Str ''x.txt''" "get_prop ?item ''content'' = Str []"
    by (simp_all add: ex_items_def is_object_def get_prop_def)
  have 2: "\<not> partial ?b"
    by (simp add: ex_items_def)
  have 3: "\<forall>f. rooIgnoreController ?w = Some f \<longrightarrow> (\<forall>tr. f tr ''x.txt'')"
    by simp
  have 4: "\<forall>tr a. askApproval ?w tr a"
    by simp
  have 5: "\<forall>tr p. fs_createDirectory ?w tr p = None"
    by (simp add: no_failure_def)
  have 6: "\<forall>tr. fs_writeFile ?w tr (resolve ex_helpers (cwd ex_helpers) ''x.txt'') [] = None"
    by (simp add: no_failure_def)
  have report: "status_report ''write_results'' ''file''
                  [\<lparr>sr_path = ''x.txt'', sr_status = Success, sr_error = None\<rparr>]
      = ''<write_results>'' @ [CHR 0x0A] @ ''  <file>'' @ [CHR 0x0A]
        @ ''    <path>x.txt</path>'' @ [CHR 0x0A] @ ''    <status>success</status>'' @ [CHR 0x0A]
        @ ''  </file>'' @ [CHR 0x0A] @ ''</write_results>''"
    by (simp add: status_report_def status_element_def error_element_def show_status_def)
  show ?thesis
    using empty_content_is_written [OF 1 2 3 4 5 6, of ex_state]
    by (simp add: report)
qed

subsection \<open>The ignore check before the approval\<close>










lemma ex_paths_secret [simp]:
  "nonempty_array (Arr [Str ''secret''])"
  "filter_paths (array_items (Arr [Str ''secret''])) = [''secret'']"
  by (simp_all add: nonempty_array_def array_items_def filter_paths_def List.map_filter_def
        trim_def is_space_def)


subsection \<open>One result for each item\<close>














lemma ex_paths_mixed [simp]:
  "nonempty_array (Arr [Str ''A'', Str ''  '', Num 3, Str ''B''])"
  "filter_paths (array_items (Arr [Str ''A'', Str ''  '', Num 3, Str ''B''])) = [''A'', ''B'']"
  by (simp_all add: nonempty_array_def array_items_def filter_paths_def List.map_filter_def
        trim_def is_space_def)


subsection \<open>Every item gets its turn\<close>




































subsection \<open>The access check inside the execution loops\<close>



























end
